theory Spec2Isabelle
  imports Main "HOL-Library.Word"
begin

unbundle bit_operations_syntax

section \<open>Machine types shared by the packages\<close>

text \<open>
  Go's \<open>[]byte\<close> is a list of 8-bit words, Go's \<open>string\<close> a list of 8-bit characters
  (\<open>len\<close> counts bytes), \<open>int64\<close> a 64-bit word read with the signed order \<open><s\<close>,
  \<open>uint32\<close> and \<open>uint8\<close> words of their width. Go's \<open>int\<close> is taken at its 64-bit width.
\<close>

type_synonym byte = "8 word"
type_synonym bytes = "byte list"
type_synonym int64 = "64 word"
type_synonym uint32 = "32 word"
type_synonym uint8 = "8 word"

section \<open>chains/bitcoin/transaction.go\<close>

record UTXO =
  TxID :: string
  Vout :: uint32
  Value :: int64
  Script :: bytes

text \<open>
  \<open>wire.TxIn\<close> and \<open>wire.TxOut\<close>, with the fields the wallet sets. The field \<open>Version\<close>
  of the transaction is \<open>TxVersion\<close> here, apart from the \<open>Version\<close> of the vault data.
\<close>

record 'h TxIn =
  PrevHash :: 'h
  PrevIndex :: uint32

record TxOut =
  OutValue :: int64
  PkScript :: bytes

record 'h Transaction =
  TxVersion :: uint32
  Inputs :: "'h TxIn list"
  Outputs :: "TxOut list"
  LockTime :: uint32

text \<open>
  The two btcd functions the builder calls: \<open>chainhash.NewHashFromStr\<close> and
  \<open>txscript.PayToAddrScript\<close>. Both can fail; \<open>None\<close> is their error.
\<close>

record ('h, 'addr) btcd =
  NewHashFromStr :: "string \<Rightarrow> 'h option"
  PayToAddrScript :: "'addr \<Rightarrow> bytes option"

datatype pay_error =
    NoFunds
  | InvalidPrevHash
  | OutputScriptFailed
  | ChangeOutputFailed
  | InsufficientFunds int64 int64 int64
  | NoChangeOutput

definition NewTransaction :: "'h Transaction" where
  "NewTransaction = \<lparr>TxVersion = 2, Inputs = [], Outputs = [], LockTime = 0\<rparr>"

definition AddInput :: "('h, 'addr) btcd \<Rightarrow> 'h Transaction \<Rightarrow> UTXO \<Rightarrow> pay_error + 'h Transaction" where
  "AddInput L tx utxo =
     (case NewHashFromStr L (TxID utxo) of
        None \<Rightarrow> Inl InvalidPrevHash
      | Some prevHash \<Rightarrow>
          Inr (tx\<lparr>Inputs := Inputs tx @ [\<lparr>PrevHash = prevHash, PrevIndex = Vout utxo\<rparr>]\<rparr>))"

definition AddOutput :: "('h, 'addr) btcd \<Rightarrow> 'h Transaction \<Rightarrow> int64 \<Rightarrow> 'addr \<Rightarrow> pay_error + 'h Transaction" where
  "AddOutput L tx v address =
     (case PayToAddrScript L address of
        None \<Rightarrow> Inl OutputScriptFailed
      | Some script \<Rightarrow> Inr (tx\<lparr>Outputs := Outputs tx @ [\<lparr>OutValue = v, PkScript = script\<rparr>]\<rparr>))"

definition CalculateFee :: "int64 \<Rightarrow> int64 \<Rightarrow> int64" where
  "CalculateFee inputValue outputValue = inputValue - outputValue"

text \<open>\<open>Transaction.EstimateFee\<close>: the estimator of the package, which no caller uses.\<close>

definition EstimateFee :: "int64 \<Rightarrow> int64 \<Rightarrow> int64 \<Rightarrow> int64" where
  "EstimateFee inputCount outputCount feeRate =
     (let baseSize = 8; inputSize = 41; outputSize = 34; witnessSize = 109;
          totalSize = baseSize + (inputCount * inputSize) + (outputCount * outputSize)
                      + (inputCount * witnessSize);
          virtualBytes = totalSize
      in virtualBytes * feeRate)"

text \<open>
  \<open>UpdateChangeOutput\<close> writes the value of the last output, and refuses a transaction with
  fewer than two outputs. It returns the transaction as it is afterwards and the error.
\<close>

definition UpdateChangeOutput :: "'h Transaction \<Rightarrow> int64 \<Rightarrow> 'h Transaction \<times> pay_error option" where
  "UpdateChangeOutput tx v =
     (if length (Outputs tx) < 2 then (tx, Some NoChangeOutput)
      else (tx\<lparr>Outputs := (Outputs tx)[length (Outputs tx) - 1 := (last (Outputs tx))\<lparr>OutValue := v\<rparr>]\<rparr>,
            None))"

section \<open>cmd/pay.go: sendBitcoin, from the UTXO list to the funds check\<close>

text \<open>The loop over the fetched UTXOs that sums \<open>totalInput\<close>.\<close>

fun sumInputs :: "int64 \<Rightarrow> UTXO list \<Rightarrow> int64" where
  "sumInputs totalInput [] = totalInput"
| "sumInputs totalInput (u # us) = sumInputs (totalInput + Value u) us"

text \<open>The loop \<open>for _, utxo := range utxos { tx.AddInput(...) }\<close>, leaving at the first error.\<close>

fun addInputs :: "('h, 'addr) btcd \<Rightarrow> 'h Transaction \<Rightarrow> UTXO list \<Rightarrow> pay_error + 'h Transaction" where
  "addInputs L tx [] = Inr tx"
| "addInputs L tx (u # us) =
     (case AddInput L tx u of Inl e \<Rightarrow> Inl e | Inr tx' \<Rightarrow> addInputs L tx' us)"

text \<open>
  \<open>feeRate, err := client.GetBitcoinFeeEstimate(); if err != nil { feeRate = 10 }\<close>:
  the argument is what the fetch returned, \<open>None\<close> for an error.
\<close>

definition feeRateOrDefault :: "int64 option \<Rightarrow> int64" where
  "feeRateOrDefault fetched = (case fetched of None \<Rightarrow> 10 | Some r \<Rightarrow> r)"

text \<open>\<open>txSize := 10 + (len(utxos) * 110) + (1 * 34)\<close> and \<open>estimatedFee := int64(txSize) * feeRate\<close>.\<close>

definition initialTxSize :: "UTXO list \<Rightarrow> int64" where
  "initialTxSize utxos = 10 + (of_nat (length utxos) * 110) + (1 * 34)"

definition initialFee :: "UTXO list \<Rightarrow> int64 \<Rightarrow> int64" where
  "initialFee utxos feeRate = initialTxSize utxos * feeRate"

text \<open>
  The state of the local variables of \<open>sendBitcoin\<close> while the change is settled.
\<close>

record 'h payment =
  tx :: "'h Transaction"
  txSize :: int64
  feeRate :: int64
  totalInput :: int64
  estimatedFee :: int64
  change :: int64

text \<open>
  \<open>if change > 0 && change < dustThreshold { estimatedFee += change; change = 0 }\<close>
\<close>

definition dustThreshold :: int64 where
  "dustThreshold = 546"

definition foldDust :: "'h payment \<Rightarrow> 'h payment" where
  "foldDust p =
     (if 0 <s change p \<and> change p <s dustThreshold
      then p\<lparr>estimatedFee := estimatedFee p + change p, change := 0\<rparr>
      else p)"

text \<open>
  The block \<open>if change > 0 { ... }\<close>: the change output is appended, the size grows by 34,
  the fee is computed again, and the change gives up the increase when it is larger than it.
  The error of \<open>UpdateChangeOutput\<close> is dropped, as the caller drops it.
\<close>

definition adjustChange :: "'h payment \<Rightarrow> 'h payment" where
  "adjustChange p =
     (let p1 = p\<lparr>txSize := txSize p + 34\<rparr>;
          newFee = txSize p1 * feeRate p1
      in if estimatedFee p1 <s newFee
         then (let feeIncrease = newFee - estimatedFee p1
               in if feeIncrease <s change p1
                  then (let c = change p1 - feeIncrease
                        in p1\<lparr>change := c, tx := fst (UpdateChangeOutput (tx p1) c)\<rparr>)
                  else p1)
         else p1)"

definition addChange :: "('h, 'addr) btcd \<Rightarrow> 'addr \<Rightarrow> 'h payment \<Rightarrow> pay_error + 'h payment" where
  "addChange L senderAddress p =
     (if 0 <s change p
      then (case AddOutput L (tx p) (change p) senderAddress of
              Inl e \<Rightarrow> Inl ChangeOutputFailed
            | Inr tx' \<Rightarrow> Inr (adjustChange (p\<lparr>tx := tx'\<rparr>)))
      else Inr p)"

text \<open>
  Everything from \<open>change := totalInput - value - estimatedFee\<close> to the end of the change
  block, for a transaction that holds the inputs and the payment output.
\<close>

definition settleChange ::
  "('h, 'addr) btcd \<Rightarrow> 'addr \<Rightarrow> 'h Transaction \<Rightarrow> int64 \<Rightarrow> int64 \<Rightarrow> int64 \<Rightarrow> int64 \<Rightarrow> int64
     \<Rightarrow> pay_error + 'h payment" where
  "settleChange L senderAddress t sz rate tot v fee =
     addChange L senderAddress
       (foldDust \<lparr>tx = t, txSize = sz, feeRate = rate, totalInput = tot,
                  estimatedFee = fee, change = tot - v - fee\<rparr>)"

text \<open>
  \<open>sendBitcoin\<close> from the check of the UTXO list to the funds check. The amounts are in
  satoshis, as \<open>BTCToSatoshis\<close> left them; the fee rate is the answer of the fetch. What
  follows the funds check (the display, the signatures, the broadcast) reads the prepared
  payment and is not modelled.
\<close>

definition sendBitcoin ::
  "('h, 'addr) btcd \<Rightarrow> 'addr \<Rightarrow> 'addr \<Rightarrow> int64 \<Rightarrow> UTXO list \<Rightarrow> int64 option
     \<Rightarrow> pay_error + 'h payment" where
  "sendBitcoin L senderAddress recipient v utxos fetched =
     (if utxos = [] then Inl NoFunds
      else
        let tot = sumInputs 0 utxos;
            rate = feeRateOrDefault fetched
        in case addInputs L NewTransaction utxos of
             Inl e \<Rightarrow> Inl e
           | Inr t0 \<Rightarrow>
               (case AddOutput L t0 v recipient of
                  Inl e \<Rightarrow> Inl e
                | Inr t1 \<Rightarrow>
                    (case settleChange L senderAddress t1 (initialTxSize utxos) rate tot v
                            (initialFee utxos rate) of
                       Inl e \<Rightarrow> Inl e
                     | Inr p \<Rightarrow>
                         if tot <s v + estimatedFee p
                         then Inl (InsufficientFunds v (estimatedFee p) tot)
                         else Inr p)))"

section \<open>chains/solana/transaction.go\<close>

text \<open>
  The Solana transaction under construction. The types of instructions, private keys and
  public keys belong to \<open>solana-go\<close>.
\<close>

record ('ins, 'key, 'pub) sol_Transaction =
  Instructions :: "'ins list"
  Signers :: "'key list"
  FeePayer :: 'pub
  RecentBlockhash :: string

text \<open>
  What \<open>BuildAndSign\<close> calls in \<open>solana-go\<close> and \<open>base58\<close>: \<open>solana.HashFromBase58\<close>,
  \<open>solana.NewTransaction\<close>, \<open>Transaction.Sign\<close> with the key lookup it is given,
  \<open>MarshalBinary\<close>, \<open>base58.Encode\<close> and \<open>PrivateKey.PublicKey\<close>. \<open>None\<close> is an error.
\<close>

record ('ins, 'key, 'pub, 'hash, 'stx) solana_go =
  HashFromBase58 :: "string \<Rightarrow> 'hash option"
  solana_NewTransaction :: "'ins list \<Rightarrow> 'hash \<Rightarrow> 'pub \<Rightarrow> 'stx option"
  Sign :: "'stx \<Rightarrow> ('pub \<Rightarrow> 'key option) \<Rightarrow> 'stx option"
  MarshalBinary :: "'stx \<Rightarrow> bytes option"
  base58_Encode :: "bytes \<Rightarrow> string"
  PublicKey_of :: "'key \<Rightarrow> 'pub"

datatype sol_error =
    BlockhashEmpty
  | InvalidBase58Char nat
  | BlockhashTooShort nat
  | InvalidBlockhashFormat
  | CreateTransactionFailed
  | NoSigners
  | SignFailed
  | SerializeFailed

definition base58Chars :: string where
  "base58Chars = ''123456789ABCDEFGHJKLMNPQRSTUVWXYZabcdefghijkmnopqrstuvwxyz''"

text \<open>
  The loop \<open>for i, c := range tx.RecentBlockhash\<close> with \<open>strings.ContainsRune\<close>: it stops
  at the first rune outside the alphabet and reports its byte position. The alphabet is ASCII,
  so a rune passes only if it is a single byte of the alphabet, and the first rune that fails
  starts at the first byte that is not in the alphabet: the loop is the same over bytes.
\<close>

fun invalidPosition :: "nat \<Rightarrow> string \<Rightarrow> nat option" where
  "invalidPosition i [] = None"
| "invalidPosition i (c # cs) =
     (if c \<in> set base58Chars then invalidPosition (Suc i) cs else Some i)"

text \<open>The part of \<open>BuildAndSign\<close> after the blockhash has been parsed.\<close>

definition signAndSerialize ::
  "('ins, 'key, 'pub, 'hash, 'stx) solana_go \<Rightarrow> ('ins, 'key, 'pub) sol_Transaction \<Rightarrow> 'hash
     \<Rightarrow> sol_error + string" where
  "signAndSerialize L t blockhash =
     (case solana_NewTransaction L (Instructions t) blockhash (FeePayer t) of
        None \<Rightarrow> Inl CreateTransactionFailed
      | Some stx \<Rightarrow>
          if Signers t = [] then Inl NoSigners
          else (case Sign L stx (\<lambda>key. find (\<lambda>signer. key = PublicKey_of L signer) (Signers t)) of
                  None \<Rightarrow> Inl SignFailed
                | Some stx2 \<Rightarrow>
                    (case MarshalBinary L stx2 of
                       None \<Rightarrow> Inl SerializeFailed
                     | Some serialized \<Rightarrow> Inr (base58_Encode L serialized))))"

definition BuildAndSign ::
  "('ins, 'key, 'pub, 'hash, 'stx) solana_go \<Rightarrow> ('ins, 'key, 'pub) sol_Transaction
     \<Rightarrow> sol_error + string" where
  "BuildAndSign L t =
     (if RecentBlockhash t = [] then Inl BlockhashEmpty
      else (case invalidPosition 0 (RecentBlockhash t) of
              Some i \<Rightarrow> Inl (InvalidBase58Char i)
            | None \<Rightarrow>
                if length (RecentBlockhash t) < 32
                then Inl (BlockhashTooShort (length (RecentBlockhash t)))
                else (case HashFromBase58 L (RecentBlockhash t) of
                        None \<Rightarrow> Inl InvalidBlockhashFormat
                      | Some blockhash \<Rightarrow> signAndSerialize L t blockhash)))"

text \<open>The four ways in which \<open>BuildAndSign\<close> rejects the blockhash itself.\<close>

fun blockhashError :: "sol_error \<Rightarrow> bool" where
  "blockhashError BlockhashEmpty = True"
| "blockhashError (InvalidBase58Char i) = True"
| "blockhashError (BlockhashTooShort n) = True"
| "blockhashError InvalidBlockhashFormat = True"
| "blockhashError e = False"

section \<open>wallet/hdwallet.go\<close>

record HDKey =
  PrivateKey :: bytes
  PublicKey :: bytes
  ChainCode :: bytes
  Depth :: uint8
  ChildNum :: uint32
  Fingerprint :: uint32

text \<open>
  The library functions the derivation calls: HMAC-SHA512 (\<open>crypto/hmac\<close> with
  \<open>sha512.New\<close>), the scalar multiplication of the base point of secp256k1
  (\<open>crypto.S256().ScalarBaseMult\<close>, giving the two coordinates) and \<open>crypto.Keccak256\<close>.
\<close>

record hd_lib =
  hmac_sha512_Sum :: "bytes \<Rightarrow> bytes \<Rightarrow> bytes"
  ScalarBaseMult :: "bytes \<Rightarrow> int \<times> int"
  Keccak256 :: "bytes \<Rightarrow> bytes"

datatype hd_error = InvalidHashLength | InvalidPrivateKey | SliceOutOfRange

text \<open>
  \<open>big.Int\<close> is an unbounded integer. \<open>SetBytes\<close> reads a big-endian unsigned integer,
  \<open>Bytes\<close> writes the absolute value in the shortest big-endian form, which is empty for 0,
  and \<open>Mod\<close> with a positive modulus is the non-negative remainder.
\<close>

fun SetBytes_from :: "int \<Rightarrow> bytes \<Rightarrow> int" where
  "SetBytes_from acc [] = acc"
| "SetBytes_from acc (b # bs) = SetBytes_from (acc * 256 + uint b) bs"

definition SetBytes :: "bytes \<Rightarrow> int" where
  "SetBytes bs = SetBytes_from 0 bs"

function magnitudeBytes :: "int \<Rightarrow> bytes" where
  "magnitudeBytes n = (if n \<le> 0 then [] else magnitudeBytes (n div 256) @ [word_of_int (n mod 256)])"
  by pat_completeness auto
termination
  by (relation "measure nat") auto

declare magnitudeBytes.simps [simp del]

definition Bytes :: "int \<Rightarrow> bytes" where
  "Bytes x = magnitudeBytes \<bar>x\<bar>"

text \<open>\<open>binary.BigEndian.PutUint32\<close> and \<open>binary.BigEndian.Uint32\<close>.\<close>

definition PutUint32 :: "uint32 \<Rightarrow> bytes" where
  "PutUint32 v = [ucast (drop_bit 24 v), ucast (drop_bit 16 v), ucast (drop_bit 8 v), ucast v]"

definition Uint32 :: "bytes \<Rightarrow> uint32" where
  "Uint32 b = (push_bit 24 (ucast (b ! 0)) OR push_bit 16 (ucast (b ! 1))
               OR push_bit 8 (ucast (b ! 2)) OR ucast (b ! 3))"

text \<open>The order of the group of secp256k1, as the source writes it.\<close>

definition curveOrder :: int where
  "curveOrder = 0xFFFFFFFFFFFFFFFFFFFFFFFFFFFFFFFEBAAEDCE6AF48A03BBFD25E8CD0364141"

definition hmacSHA512 :: "hd_lib \<Rightarrow> bytes \<Rightarrow> bytes \<Rightarrow> bytes" where
  "hmacSHA512 L key data = hmac_sha512_Sum L key data"

definition derivePublicKey :: "hd_lib \<Rightarrow> bytes \<Rightarrow> bytes" where
  "derivePublicKey L privateKey =
     (case ScalarBaseMult L privateKey of
        (x, y) \<Rightarrow> if y mod 2 = 0 then [0x02] @ Bytes x else [0x03] @ Bytes x)"

definition isValidPrivateKey :: "bytes \<Rightarrow> bool" where
  "isValidPrivateKey privateKey =
     (if length privateKey \<noteq> 32 then False
      else if SetBytes privateKey = 0 then False
      else if SetBytes privateKey \<ge> curveOrder then False
      else True)"

definition isHardened :: "uint32 \<Rightarrow> bool" where
  "isHardened childNum = (childNum \<ge> 0x80000000)"

text \<open>\<open>hash[:4]\<close> panics on a hash of fewer than four bytes.\<close>

definition parentFingerprint :: "hd_lib \<Rightarrow> bytes \<Rightarrow> hd_error + uint32" where
  "parentFingerprint L publicKey =
     (let hash = Keccak256 L publicKey
      in if length hash < 4 then Inl SliceOutOfRange else Inr (Uint32 (take 4 hash)))"

definition newMasterKey :: "hd_lib \<Rightarrow> bytes \<Rightarrow> hd_error + HDKey" where
  "newMasterKey L seed =
     (let hash = hmacSHA512 L (map of_char ''Bitcoin seed'') seed
      in if length hash \<noteq> 64 then Inl InvalidHashLength
         else let privateKey = take 32 hash; chainCode = drop 32 hash
              in if \<not> isValidPrivateKey privateKey then Inl InvalidPrivateKey
                 else Inr \<lparr>PrivateKey = privateKey, PublicKey = derivePublicKey L privateKey,
                           ChainCode = chainCode, Depth = 0, ChildNum = 0, Fingerprint = 0\<rparr>)"

text \<open>The message of the HMAC in \<open>deriveChild\<close>: the key material followed by the index.\<close>

definition childData :: "HDKey \<Rightarrow> uint32 \<Rightarrow> bytes" where
  "childData parent childNum =
     (if isHardened childNum then [0x00] @ PrivateKey parent else PublicKey parent)
     @ PutUint32 childNum"

text \<open>\<open>deriveChild\<close> from the line that splits the hash.\<close>

definition childFromHash :: "hd_lib \<Rightarrow> HDKey \<Rightarrow> uint32 \<Rightarrow> bytes \<Rightarrow> hd_error + HDKey" where
  "childFromHash L parent childNum hash =
     (if length hash \<noteq> 64 then Inl InvalidHashLength
      else
        let il = take 32 hash; ir = drop 32 hash;
            parentPrivateKey = SetBytes (PrivateKey parent);
            ilInt = SetBytes il;
            newPrivateKeyInt = (parentPrivateKey + ilInt) mod curveOrder
        in if newPrivateKeyInt = 0 then Inl InvalidPrivateKey
           else
             let newPrivateKey =
                   (if length (Bytes newPrivateKeyInt) < 32
                    then replicate (32 - length (Bytes newPrivateKeyInt)) 0 @ Bytes newPrivateKeyInt
                    else Bytes newPrivateKeyInt);
                 newPublicKey = derivePublicKey L newPrivateKey
             in case parentFingerprint L (PublicKey parent) of
                  Inl e \<Rightarrow> Inl e
                | Inr fingerprint \<Rightarrow>
                    Inr \<lparr>PrivateKey = newPrivateKey, PublicKey = newPublicKey, ChainCode = ir,
                         Depth = Depth parent + 1, ChildNum = childNum,
                         Fingerprint = fingerprint\<rparr>)"

definition deriveChild :: "hd_lib \<Rightarrow> HDKey \<Rightarrow> uint32 \<Rightarrow> hd_error + HDKey" where
  "deriveChild L parent childNum =
     childFromHash L parent childNum (hmacSHA512 L (ChainCode parent) (childData parent childNum))"

text \<open>The loop of \<open>deriveChildKey\<close> over the indices of a path.\<close>

fun deriveChildKey :: "hd_lib \<Rightarrow> HDKey \<Rightarrow> uint32 list \<Rightarrow> hd_error + HDKey" where
  "deriveChildKey L childKey [] = Inr childKey"
| "deriveChildKey L childKey (childNum # path) =
     (case deriveChild L childKey childNum of
        Inl e \<Rightarrow> Inl e
      | Inr k \<Rightarrow> deriveChildKey L k path)"

section \<open>crypto/vault.go\<close>

definition ScryptN :: nat where "ScryptN = 32768"
definition ScryptR :: nat where "ScryptR = 8"
definition ScryptP :: nat where "ScryptP = 1"
definition KeyLen :: nat where "KeyLen = 32"

text \<open>
  The vault as it is kept in memory. \<open>MAC\<close> is the one slice whose being \<open>nil\<close> matters:
  \<open>None\<close> is \<open>nil\<close>.
\<close>

record Vault =
  Salt :: bytes
  Nonce :: bytes
  Data :: bytes
  MAC :: "bytes option"

record VaultData =
  Mnemonic :: string
  Version :: int

text \<open>
  The library under the vault: \<open>scrypt.Key\<close>, \<open>aes.NewCipher\<close>, \<open>cipher.NewGCM\<close>, the
  \<open>Seal\<close> and \<open>Open\<close> of the AEAD (called with no destination and no additional data), and
  \<open>json.Marshal\<close> and \<open>json.Unmarshal\<close> at the type \<open>VaultData\<close>. \<open>None\<close> is an error.
  \<open>Seal\<close> and \<open>Open\<close> are defined for a nonce of the size of the cipher only; with another
  nonce they panic, which \<open>encrypt\<close> and \<open>decrypt\<close> below write out.
\<close>

record ('blk, 'aead) crypto_lib =
  scrypt_Key :: "bytes \<Rightarrow> bytes \<Rightarrow> nat \<Rightarrow> nat \<Rightarrow> nat \<Rightarrow> nat \<Rightarrow> bytes option"
  aes_NewCipher :: "bytes \<Rightarrow> 'blk option"
  cipher_NewGCM :: "'blk \<Rightarrow> 'aead option"
  gcm_Seal :: "'aead \<Rightarrow> bytes \<Rightarrow> bytes \<Rightarrow> bytes"
  gcm_Open :: "'aead \<Rightarrow> bytes \<Rightarrow> bytes \<Rightarrow> bytes option"
  json_Marshal_VaultData :: "VaultData \<Rightarrow> bytes option"
  json_Unmarshal_VaultData :: "bytes \<Rightarrow> VaultData option"

datatype vault_error =
    SaltFailed
  | KeyDerivationFailed
  | SerializeVaultDataFailed
  | NonceFailed
  | CreateCipherFailed
  | CreateGCMFailed
  | EncryptFailed vault_error
  | DecryptFailed vault_error
  | OpenFailed
  | DeserializeVaultDataFailed
  | NonceLengthPanic

text \<open>
  \<open>NonceLengthPanic\<close> is no error value of the source but the panic
  \<open>crypto/cipher: incorrect nonce length given to GCM\<close>: nothing recovers from it, so every
  caller passes it on as it is and the call never returns. The nonce size of the GCM that
  \<open>cipher.NewGCM\<close> makes is 12.
\<close>

definition gcmStandardNonceSize :: nat where
  "gcmStandardNonceSize = 12"

text \<open>
  \<open>crypto/rand.Reader\<close> is the sequence of bytes it is going to deliver; \<open>io.ReadFull\<close>
  takes the next \<open>n\<close> of them, and fails when the source cannot deliver them.
\<close>

definition ReadFull :: "nat \<Rightarrow> bytes \<Rightarrow> (bytes \<times> bytes) option" where
  "ReadFull n source =
     (if length source < n then None else Some (take n source, drop n source))"

text \<open>The conversion \<open>[]byte(password)\<close>.\<close>

definition bytes_of_string :: "string \<Rightarrow> bytes" where
  "bytes_of_string s = map of_char s"

definition deriveKey :: "('blk, 'aead) crypto_lib \<Rightarrow> string \<Rightarrow> bytes \<Rightarrow> vault_error + bytes" where
  "deriveKey L pw salt =
     (case scrypt_Key L (bytes_of_string pw) salt ScryptN ScryptR ScryptP KeyLen of
        None \<Rightarrow> Inl KeyDerivationFailed
      | Some key \<Rightarrow> Inr key)"

definition encrypt ::
  "('blk, 'aead) crypto_lib \<Rightarrow> bytes \<Rightarrow> bytes \<Rightarrow> bytes \<Rightarrow> vault_error + (bytes \<times> bytes option)" where
  "encrypt L key nonce data =
     (case aes_NewCipher L key of
        None \<Rightarrow> Inl CreateCipherFailed
      | Some block \<Rightarrow>
          (case cipher_NewGCM L block of
             None \<Rightarrow> Inl CreateGCMFailed
           | Some aesGCM \<Rightarrow>
               if length nonce \<noteq> gcmStandardNonceSize then Inl NonceLengthPanic
               else Inr (gcm_Seal L aesGCM nonce data, None)))"

definition decrypt ::
  "('blk, 'aead) crypto_lib \<Rightarrow> bytes \<Rightarrow> bytes \<Rightarrow> bytes \<Rightarrow> bytes option \<Rightarrow> vault_error + bytes" where
  "decrypt L key nonce data mac =
     (case aes_NewCipher L key of
        None \<Rightarrow> Inl CreateCipherFailed
      | Some block \<Rightarrow>
          (case cipher_NewGCM L block of
             None \<Rightarrow> Inl CreateGCMFailed
           | Some aesGCM \<Rightarrow>
               if length nonce \<noteq> gcmStandardNonceSize then Inl NonceLengthPanic
               else (case gcm_Open L aesGCM nonce data of
                       None \<Rightarrow> Inl OpenFailed
                     | Some plaintext \<Rightarrow> Inr plaintext)))"

text \<open>
  \<open>NewVault\<close> returns its result and what is left of the random source. The deferred
  \<open>clearBytes(key)\<close> overwrites the key after the result is built and changes no result.
\<close>

definition NewVault ::
  "('blk, 'aead) crypto_lib \<Rightarrow> bytes \<Rightarrow> string \<Rightarrow> string \<Rightarrow> (vault_error + Vault) \<times> bytes" where
  "NewVault L source mn pw =
     (case ReadFull 32 source of
        None \<Rightarrow> (Inl SaltFailed, source)
      | Some (salt, source1) \<Rightarrow>
          (case deriveKey L pw salt of
             Inl e \<Rightarrow> (Inl e, source1)
           | Inr key \<Rightarrow>
               (case json_Marshal_VaultData L \<lparr>Mnemonic = mn, Version = 1\<rparr> of
                  None \<Rightarrow> (Inl SerializeVaultDataFailed, source1)
                | Some data \<Rightarrow>
                    (case ReadFull 12 source1 of
                       None \<Rightarrow> (Inl NonceFailed, source1)
                     | Some (nonce, source2) \<Rightarrow>
                         (case encrypt L key nonce data of
                            Inl e \<Rightarrow>
                              (if e = NonceLengthPanic then Inl NonceLengthPanic
                               else Inl (EncryptFailed e), source2)
                          | Inr (encryptedData, mac) \<Rightarrow>
                              (Inr \<lparr>Salt = salt, Nonce = nonce, Data = encryptedData, MAC = mac\<rparr>,
                               source2))))))"

definition Decrypt :: "('blk, 'aead) crypto_lib \<Rightarrow> Vault \<Rightarrow> string \<Rightarrow> vault_error + string" where
  "Decrypt L v pw =
     (case deriveKey L pw (Salt v) of
        Inl e \<Rightarrow> Inl e
      | Inr key \<Rightarrow>
          (case decrypt L key (Nonce v) (Data v) (MAC v) of
             Inl e \<Rightarrow> if e = NonceLengthPanic then Inl NonceLengthPanic else Inl (DecryptFailed e)
           | Inr decryptedData \<Rightarrow>
               (case json_Unmarshal_VaultData L decryptedData of
                  None \<Rightarrow> Inl DeserializeVaultDataFailed
                | Some vaultData \<Rightarrow> Inr (Mnemonic vaultData))))"

text \<open>\<open>ValidatePassword\<close> answers \<open>err == nil\<close>, unless \<open>Decrypt\<close> panics.\<close>

definition ValidatePassword ::
  "('blk, 'aead) crypto_lib \<Rightarrow> Vault \<Rightarrow> string \<Rightarrow> vault_error + bool" where
  "ValidatePassword L v pw =
     (case Decrypt L v pw of
        Inl e \<Rightarrow> if e = NonceLengthPanic then Inl NonceLengthPanic else Inr False
      | Inr mn \<Rightarrow> Inr True)"

section \<open>wallet: the manager (unnamed/part_007)\<close>

definition NetworkMainnet :: string where "NetworkMainnet = ''mainnet''"
definition NetworkTestnet :: string where "NetworkTestnet = ''testnet''"

text \<open>Session duration in minutes, and a minute of \<open>time.Duration\<close> in nanoseconds.\<close>

definition SessionDuration :: int where "SessionDuration = 30"
definition Minute :: int where "Minute = 60 * 1000000000"

text \<open>A \<open>time.Time\<close> is an instant, counted in nanoseconds.\<close>

record SessionData =
  Token :: string
  SessionMnemonic :: string
  Expiration :: int
  Network :: string

text \<open>
  The manager. Its two paths are fixed by \<open>NewManager\<close> and name the two files of the
  world below; the mutex orders whole calls and has no part in a single call.
\<close>

record Manager =
  vault :: "Vault option"
  mnemonic :: string
  password :: string
  unlocked :: bool
  network :: string

text \<open>
  What a call can see and change outside the manager: the vault file and the session file
  (\<open>None\<close> when the file does not exist; what a file holds is whatever the JSON encoder of the
  library wrote), the network file, whether the directory can be made and the two files
  written, the clock, and the bytes the random source is going to deliver. A file that
  exists can be read, and \<open>os.Remove\<close> removes it.
\<close>

record 'f world =
  vault_file :: "'f option"
  session_file :: "'f option"
  network_file :: "string option"
  mkdir_ok :: bool
  vault_writable :: bool
  session_writable :: bool
  clock :: int
  random :: bytes

text \<open>
  The library under the manager: \<open>json.Marshal\<close> and \<open>json.Unmarshal\<close> at the types
  \<open>SessionData\<close> and \<open>Vault\<close>, \<open>bip39.NewMnemonic\<close>, \<open>bip39.IsMnemonicValid\<close>,
  \<open>strings.TrimSpace\<close> and \<open>strings.Fields\<close>. \<open>None\<close> is an error.
\<close>

record 'f manager_lib =
  json_Marshal_Session :: "SessionData \<Rightarrow> 'f option"
  json_Unmarshal_Session :: "'f \<Rightarrow> SessionData option"
  json_Marshal_Vault :: "Vault \<Rightarrow> 'f option"
  json_Unmarshal_Vault :: "'f \<Rightarrow> Vault option"
  bip39_NewMnemonic :: "bytes \<Rightarrow> string option"
  bip39_IsMnemonicValid :: "string \<Rightarrow> bool"
  strings_TrimSpace :: "string \<Rightarrow> string"
  strings_Fields :: "string \<Rightarrow> string list"

datatype manager_error =
    TokenFailed
  | MarshalSessionFailed
  | WriteSessionFailed
  | EntropyFailed
  | NewMnemonicFailed
  | InvalidMnemonic
  | CreateVaultFailed vault_error
  | MkdirFailed
  | MarshalVaultFailed
  | WriteVaultFailed
  | SaveVaultFailed manager_error
  | CreateSessionFailed manager_error
  | ReadVaultFailed
  | UnmarshalVaultFailed
  | LoadVaultFailed manager_error
  | InvalidPassword
  | DecryptVaultFailed vault_error
  | WalletLocked
  | Panicked vault_error

text \<open>
  \<open>Panicked\<close> is no error the manager returns. It stands for a panic under a call into the
  vault: the manager recovers from none, so its own call does not return either.
\<close>

text \<open>
  \<open>NewManager\<close>: the network is that of the network file when it names one. The home
  directory is taken to exist (the source panics without one).
\<close>

definition NewManager :: "'f manager_lib \<Rightarrow> 'f world \<Rightarrow> Manager" where
  "NewManager L w =
     \<lparr>vault = None, mnemonic = [], password = [], unlocked = False,
      network =
        (case network_file w of
           None \<Rightarrow> NetworkMainnet
         | Some content \<Rightarrow>
             if strings_TrimSpace L content \<noteq> NetworkMainnet \<and>
                strings_TrimSpace L content \<noteq> NetworkTestnet
             then NetworkMainnet else strings_TrimSpace L content)\<rparr>"

text \<open>\<open>hex.EncodeToString\<close>.\<close>

definition hexDigit :: "nat \<Rightarrow> char" where
  "hexDigit n = ''0123456789abcdef'' ! n"

definition EncodeToString :: "bytes \<Rightarrow> string" where
  "EncodeToString b = concat (map (\<lambda>x. [hexDigit (unat x div 16), hexDigit (unat x mod 16)]) b)"

definition generateSessionToken :: "bytes \<Rightarrow> (manager_error + string) \<times> bytes" where
  "generateSessionToken source =
     (case ReadFull 32 source of
        None \<Rightarrow> (Inl TokenFailed, source)
      | Some (tokenBytes, source1) \<Rightarrow> (Inr (EncodeToString tokenBytes), source1))"

definition createSession ::
  "'f manager_lib \<Rightarrow> Manager \<Rightarrow> 'f world \<Rightarrow> manager_error option \<times> 'f world" where
  "createSession L m w =
     (case generateSessionToken (random w) of
        (Inl e, source1) \<Rightarrow> (Some e, w\<lparr>random := source1\<rparr>)
      | (Inr token, source1) \<Rightarrow>
          (case json_Marshal_Session L
                  \<lparr>Token = token, SessionMnemonic = mnemonic m,
                   Expiration = clock w + SessionDuration * Minute, Network = network m\<rparr> of
             None \<Rightarrow> (Some MarshalSessionFailed, w\<lparr>random := source1\<rparr>)
           | Some data \<Rightarrow>
               if session_writable w
               then (None, w\<lparr>random := source1, session_file := Some data\<rparr>)
               else (Some WriteSessionFailed, w\<lparr>random := source1\<rparr>)))"

text \<open>
  \<open>loadSession\<close> answers whether a valid session was loaded. \<open>time.Now().After(t)\<close> holds
  when the clock is strictly later than \<open>t\<close>.
\<close>

definition loadSession ::
  "'f manager_lib \<Rightarrow> Manager \<Rightarrow> 'f world \<Rightarrow> bool \<times> Manager \<times> 'f world" where
  "loadSession L m w =
     (case session_file w of
        None \<Rightarrow> (False, m, w)
      | Some data \<Rightarrow>
          (case json_Unmarshal_Session L data of
             None \<Rightarrow> (False, m, w\<lparr>session_file := None\<rparr>)
           | Some session \<Rightarrow>
               if clock w > Expiration session then (False, m, w\<lparr>session_file := None\<rparr>)
               else if Network session \<noteq> network m then (False, m, w)
               else (True, m\<lparr>mnemonic := SessionMnemonic session, unlocked := True\<rparr>, w)))"

definition clearSession :: "'f world \<Rightarrow> 'f world" where
  "clearSession w = w\<lparr>session_file := None\<rparr>"

definition saveVault :: "'f manager_lib \<Rightarrow> Vault \<Rightarrow> 'f world \<Rightarrow> manager_error option \<times> 'f world" where
  "saveVault L v w =
     (case json_Marshal_Vault L v of
        None \<Rightarrow> (Some MarshalVaultFailed, w)
      | Some data \<Rightarrow>
          if vault_writable w then (None, w\<lparr>vault_file := Some data\<rparr>)
          else (Some WriteVaultFailed, w))"

definition loadVault :: "'f manager_lib \<Rightarrow> 'f world \<Rightarrow> manager_error + Vault" where
  "loadVault L w =
     (case vault_file w of
        None \<Rightarrow> Inl ReadVaultFailed
      | Some data \<Rightarrow>
          (case json_Unmarshal_Vault L data of
             None \<Rightarrow> Inl UnmarshalVaultFailed
           | Some v \<Rightarrow> Inr v))"

definition VaultExists :: "'f world \<Rightarrow> bool" where
  "VaultExists w = (vault_file w \<noteq> None)"

text \<open>
  The lines that \<open>Initialize\<close> and \<open>ImportFromMnemonic\<close> have in common, from
  \<open>crypto.NewVault\<close> to the end: the vault is made, the directory ensured, the vault saved,
  the manager unlocked and the session created.
\<close>

definition storeNewVault ::
  "'f manager_lib \<Rightarrow> ('blk, 'aead) crypto_lib \<Rightarrow> Manager \<Rightarrow> 'f world \<Rightarrow> string \<Rightarrow> string
     \<Rightarrow> manager_error option \<times> Manager \<times> 'f world" where
  "storeNewVault L C m w mn pw =
     (case NewVault C (random w) mn pw of
        (Inl e, source1) \<Rightarrow>
          (Some (if e = NonceLengthPanic then Panicked e else CreateVaultFailed e), m,
           w\<lparr>random := source1\<rparr>)
      | (Inr v, source1) \<Rightarrow>
          if \<not> mkdir_ok w then (Some MkdirFailed, m, w\<lparr>random := source1\<rparr>)
          else (case saveVault L v (w\<lparr>random := source1\<rparr>) of
                  (Some e, w1) \<Rightarrow> (Some (SaveVaultFailed e), m, w1)
                | (None, w1) \<Rightarrow>
                    (case createSession L
                            (m\<lparr>vault := Some v, mnemonic := mn, password := pw, unlocked := True\<rparr>) w1 of
                       (Some e, w2) \<Rightarrow>
                         (Some (CreateSessionFailed e),
                          m\<lparr>vault := Some v, mnemonic := mn, password := pw, unlocked := True\<rparr>, w2)
                     | (None, w2) \<Rightarrow>
                         (None,
                          m\<lparr>vault := Some v, mnemonic := mn, password := pw, unlocked := True\<rparr>, w2))))"

text \<open>\<open>bip39.NewEntropy(256)\<close> reads 32 bytes of the random source.\<close>

definition Initialize ::
  "'f manager_lib \<Rightarrow> ('blk, 'aead) crypto_lib \<Rightarrow> Manager \<Rightarrow> 'f world \<Rightarrow> string
     \<Rightarrow> manager_error option \<times> Manager \<times> 'f world" where
  "Initialize L C m w pw =
     (case ReadFull 32 (random w) of
        None \<Rightarrow> (Some EntropyFailed, m, w)
      | Some (entropy, source1) \<Rightarrow>
          (case bip39_NewMnemonic L entropy of
             None \<Rightarrow> (Some NewMnemonicFailed, m, w\<lparr>random := source1\<rparr>)
           | Some mn \<Rightarrow> storeNewVault L C m (w\<lparr>random := source1\<rparr>) mn pw))"

definition ImportFromMnemonic ::
  "'f manager_lib \<Rightarrow> ('blk, 'aead) crypto_lib \<Rightarrow> Manager \<Rightarrow> 'f world \<Rightarrow> string \<Rightarrow> string
     \<Rightarrow> manager_error option \<times> Manager \<times> 'f world" where
  "ImportFromMnemonic L C m w mn pw =
     (if \<not> bip39_IsMnemonicValid L mn then (Some InvalidMnemonic, m, w)
      else storeNewVault L C m w mn pw)"

text \<open>
  \<open>Unlock\<close>, from the vault the manager holds or loads on. A panic under \<open>ValidatePassword\<close>
  or \<open>Decrypt\<close> ends the call as \<open>Panicked\<close>, with manager and world as they were then.
\<close>

definition unlockWith ::
  "'f manager_lib \<Rightarrow> ('blk, 'aead) crypto_lib \<Rightarrow> Manager \<Rightarrow> 'f world \<Rightarrow> Vault \<Rightarrow> string
     \<Rightarrow> manager_error option \<times> Manager \<times> 'f world" where
  "unlockWith L C m w v pw =
     (case ValidatePassword C v pw of
        Inl e \<Rightarrow> (Some (Panicked e), m, w)
      | Inr valid \<Rightarrow>
          if \<not> valid then (Some InvalidPassword, m, w)
          else (case Decrypt C v pw of
                  Inl e \<Rightarrow>
                    (Some (if e = NonceLengthPanic then Panicked e else DecryptVaultFailed e), m, w)
                | Inr mn \<Rightarrow>
                    (case createSession L (m\<lparr>mnemonic := mn, password := pw, unlocked := True\<rparr>) w of
                       (Some e, w1) \<Rightarrow>
                         (Some (CreateSessionFailed e),
                          m\<lparr>mnemonic := mn, password := pw, unlocked := True\<rparr>, w1)
                     | (None, w1) \<Rightarrow>
                         (None, m\<lparr>mnemonic := mn, password := pw, unlocked := True\<rparr>, w1))))"

definition Unlock ::
  "'f manager_lib \<Rightarrow> ('blk, 'aead) crypto_lib \<Rightarrow> Manager \<Rightarrow> 'f world \<Rightarrow> string
     \<Rightarrow> manager_error option \<times> Manager \<times> 'f world" where
  "Unlock L C m w pw =
     (case loadSession L m w of
        (True, m1, w1) \<Rightarrow> (None, m1, w1)
      | (False, m1, w1) \<Rightarrow>
          (case vault m1 of
             Some v \<Rightarrow> unlockWith L C m1 w1 v pw
           | None \<Rightarrow>
               (case loadVault L w1 of
                  Inl e \<Rightarrow> (Some (LoadVaultFailed e), m1, w1)
                | Inr v \<Rightarrow> unlockWith L C (m1\<lparr>vault := Some v\<rparr>) w1 v pw)))"

definition Lock :: "Manager \<Rightarrow> 'f world \<Rightarrow> Manager \<times> 'f world" where
  "Lock m w = (m\<lparr>unlocked := False, mnemonic := [], password := []\<rparr>, clearSession w)"

definition IsUnlocked :: "'f manager_lib \<Rightarrow> Manager \<Rightarrow> 'f world \<Rightarrow> bool \<times> Manager \<times> 'f world" where
  "IsUnlocked L m w =
     (if unlocked m \<and> mnemonic m \<noteq> [] then (True, m, w) else loadSession L m w)"

definition GetMnemonic ::
  "'f manager_lib \<Rightarrow> Manager \<Rightarrow> 'f world \<Rightarrow> (manager_error + string) \<times> Manager \<times> 'f world" where
  "GetMnemonic L m w =
     (if unlocked m \<and> mnemonic m \<noteq> [] then (Inr (mnemonic m), m, w)
      else (case loadSession L m w of
              (False, m1, w1) \<Rightarrow> (Inl WalletLocked, m1, w1)
            | (True, m1, w1) \<Rightarrow> (Inr (mnemonic m1), m1, w1)))"

section \<open>cmd: init (cmd/init.go) and recovery-phrase import (unnamed/part_004)\<close>

datatype cmd_error =
    AlreadyExists
  | ReadPasswordFailed
  | PasswordTooShort
  | ReadConfirmationFailed
  | PasswordsDoNotMatch
  | ReadMnemonicFailed
  | NotTwentyFourWords
  | InitializeFailed manager_error
  | ImportFailed manager_error
  | GetRecoveryPhraseFailed manager_error

text \<open>
  \<open>runInit\<close>. The two arguments are what \<open>term.ReadPassword\<close> returns at the two prompts,
  \<open>None\<close> for an error. The command works on a manager of its own.
\<close>

definition runInit ::
  "'f manager_lib \<Rightarrow> ('blk, 'aead) crypto_lib \<Rightarrow> 'f world \<Rightarrow> string option \<Rightarrow> string option
     \<Rightarrow> cmd_error option \<times> Manager \<times> 'f world" where
  "runInit L C w typed confirmed =
     (let manager = NewManager L w
      in if VaultExists w then (Some AlreadyExists, manager, w)
         else (case typed of
                 None \<Rightarrow> (Some ReadPasswordFailed, manager, w)
               | Some pw \<Rightarrow>
                   if length pw < 8 then (Some PasswordTooShort, manager, w)
                   else (case confirmed of
                           None \<Rightarrow> (Some ReadConfirmationFailed, manager, w)
                         | Some confirmPassword \<Rightarrow>
                             if pw \<noteq> confirmPassword then (Some PasswordsDoNotMatch, manager, w)
                             else (case Initialize L C manager w pw of
                                     (Some e, m1, w1) \<Rightarrow> (Some (InitializeFailed e), m1, w1)
                                   | (None, m1, w1) \<Rightarrow>
                                       (case GetMnemonic L m1 w1 of
                                          (Inl e, m2, w2) \<Rightarrow> (Some (GetRecoveryPhraseFailed e), m2, w2)
                                        | (Inr mn, m2, w2) \<Rightarrow> (None, m2, w2))))))"

text \<open>
  \<open>importRecoveryPhrase\<close>, on the manager \<open>runRecoveryPhrase\<close> made. The arguments are the
  line read from the terminal and the two passwords, \<open>None\<close> for a read error.
\<close>

definition isValidMnemonic :: "'f manager_lib \<Rightarrow> string \<Rightarrow> bool" where
  "isValidMnemonic L mn = (length (strings_Fields L mn) = 24)"

definition importRecoveryPhrase ::
  "'f manager_lib \<Rightarrow> ('blk, 'aead) crypto_lib \<Rightarrow> 'f world \<Rightarrow> string option \<Rightarrow> string option
     \<Rightarrow> string option \<Rightarrow> cmd_error option \<times> Manager \<times> 'f world" where
  "importRecoveryPhrase L C w line typed confirmed =
     (let manager = NewManager L w
      in if VaultExists w then (Some AlreadyExists, manager, w)
         else (case line of
                 None \<Rightarrow> (Some ReadMnemonicFailed, manager, w)
               | Some raw \<Rightarrow>
                   if \<not> isValidMnemonic L (strings_TrimSpace L raw)
                   then (Some NotTwentyFourWords, manager, w)
                   else (case typed of
                           None \<Rightarrow> (Some ReadPasswordFailed, manager, w)
                         | Some pw \<Rightarrow>
                             (case confirmed of
                                None \<Rightarrow> (Some ReadConfirmationFailed, manager, w)
                              | Some confirmPassword \<Rightarrow>
                                  if pw \<noteq> confirmPassword
                                  then (Some PasswordsDoNotMatch, manager, w)
                                  else (case ImportFromMnemonic L C manager w
                                               (strings_TrimSpace L raw) pw of
                                          (Some e, m1, w1) \<Rightarrow> (Some (ImportFailed e), m1, w1)
                                        | (None, m1, w1) \<Rightarrow> (None, m1, w1))))))"

section \<open>Example values\<close>

text \<open>
  Stand-ins for the external libraries and small inputs, on which the statements below are
  evaluated. They fix no property of the real libraries.
\<close>

definition example_btcd :: "(string, string) btcd" where
  "example_btcd = \<lparr>NewHashFromStr = Some, PayToAddrScript = (\<lambda>a. Some [])\<rparr>"

definition example_utxo :: "int64 \<Rightarrow> UTXO" where
  "example_utxo v = \<lparr>TxID = ''00'', Vout = 0, Value = v, Script = []\<rparr>"

definition example_paid :: "string Transaction" where
  "example_paid = \<lparr>TxVersion = 2, Inputs = [\<lparr>PrevHash = ''00'', PrevIndex = 0\<rparr>],
                    Outputs = [\<lparr>OutValue = 50000, PkScript = []\<rparr>], LockTime = 0\<rparr>"

definition example_solana_go :: "(string, nat, nat, string, string list \<times> string \<times> nat) solana_go" where
  "example_solana_go =
     \<lparr>HashFromBase58 = (\<lambda>s. if length s \<in> {32 ..< 45} then Some s else None),
      solana_NewTransaction = (\<lambda>ins h payer. Some (ins, h, payer)),
      Sign = (\<lambda>stx look. case look (snd (snd stx)) of None \<Rightarrow> None | Some k \<Rightarrow> Some stx),
      MarshalBinary = (\<lambda>stx. Some []),
      base58_Encode = (\<lambda>b. ''1''),
      PublicKey_of = (\<lambda>k. k)\<rparr>"

definition example_transfer :: "string \<Rightarrow> (string, nat, nat) sol_Transaction" where
  "example_transfer h = \<lparr>Instructions = [''transfer''], Signers = [7], FeePayer = 7, RecentBlockhash = h\<rparr>"

definition example_hd_lib :: hd_lib where
  "example_hd_lib =
     \<lparr>hmac_sha512_Sum = (\<lambda>key data. replicate 32 0xFF @ replicate 32 0x01),
      ScalarBaseMult = (\<lambda>k. (SetBytes k mod 2 ^ 200, 7)),
      Keccak256 = (\<lambda>b. replicate 32 0)\<rparr>"

definition example_parent :: HDKey where
  "example_parent =
     \<lparr>PrivateKey = replicate 31 0 @ [1], PublicKey = 0x02 # replicate 32 0x11,
      ChainCode = replicate 32 0, Depth = 0, ChildNum = 0, Fingerprint = 0\<rparr>"

text \<open>
  A toy cipher: the key is password and salt cut to the key length, sealing appends the key
  to the plaintext, opening checks and removes it. The toy encoding of the vault data is the
  bytes of the mnemonic.
\<close>

definition example_crypto :: "(bytes, bytes) crypto_lib" where
  "example_crypto =
     \<lparr>scrypt_Key = (\<lambda>pw salt N r p keyLen. Some (take keyLen (pw @ salt))),
      aes_NewCipher = (\<lambda>key. if length key = 32 then Some key else None),
      cipher_NewGCM = Some,
      gcm_Seal = (\<lambda>g nonce d. d @ g),
      gcm_Open = (\<lambda>g nonce c. if length g \<le> length c \<and> drop (length c - length g) c = g
                                then Some (take (length c - length g) c) else None),
      json_Marshal_VaultData = (\<lambda>vd. if Version vd = 1 then Some (map of_char (Mnemonic vd)) else None),
      json_Unmarshal_VaultData = (\<lambda>b. Some \<lparr>Mnemonic = map (\<lambda>x. char_of (unat x)) b, Version = 1\<rparr>)\<rparr>"

text \<open>
  What \<open>encoding/json\<close> does to the bytes of a Go string. \<open>json.Marshal\<close> walks the string
  with \<open>utf8.DecodeRuneInString\<close>: a byte below \<open>0x80\<close> and a well-formed sequence of two to
  four bytes are written (escaped or as they are, and \<open>json.Unmarshal\<close> reads them back as
  they were), and a byte that begins no well-formed sequence is written as the escape of
  \<open>U+FFFD\<close>, which \<open>json.Unmarshal\<close> reads as the three bytes \<open>EF BF BD\<close>. \<open>leadByte\<close> is
  the table \<open>first\<close> of \<open>unicode/utf8\<close> with its accept ranges: the length of the sequence
  a lead byte announces and the bounds of its second byte. \<open>runeWidth\<close> is the width
  \<open>utf8.DecodeRune\<close> returns, with \<open>0\<close> for \<open>RuneError\<close> of width one.
\<close>

definition leadByte :: "byte \<Rightarrow> (nat \<times> byte \<times> byte) option" where
  "leadByte p0 =
     (if 0xC2 \<le> p0 \<and> p0 \<le> 0xDF then Some (2, 0x80, 0xBF)
      else if p0 = 0xE0 then Some (3, 0xA0, 0xBF)
      else if 0xE1 \<le> p0 \<and> p0 \<le> 0xEC then Some (3, 0x80, 0xBF)
      else if p0 = 0xED then Some (3, 0x80, 0x9F)
      else if p0 = 0xEE \<or> p0 = 0xEF then Some (3, 0x80, 0xBF)
      else if p0 = 0xF0 then Some (4, 0x90, 0xBF)
      else if 0xF1 \<le> p0 \<and> p0 \<le> 0xF3 then Some (4, 0x80, 0xBF)
      else if p0 = 0xF4 then Some (4, 0x80, 0x8F)
      else None)"

definition runeWidth :: "bytes \<Rightarrow> nat" where
  "runeWidth p =
     (case p of
        [] \<Rightarrow> 0
      | p0 # ps \<Rightarrow>
          if p0 < 0x80 then 1
          else (case leadByte p0 of
                  None \<Rightarrow> 0
                | Some (sz, lo, hi) \<Rightarrow>
                    if length p < sz then 0
                    else if p ! 1 < lo \<or> hi < p ! 1 then 0
                    else if sz \<le> 2 then 2
                    else if p ! 2 < 0x80 \<or> 0xBF < p ! 2 then 0
                    else if sz \<le> 3 then 3
                    else if p ! 3 < 0x80 \<or> 0xBF < p ! 3 then 0
                    else 4))"

function replaceInvalidUTF8 :: "bytes \<Rightarrow> bytes" where
  "replaceInvalidUTF8 p =
     (if p = [] then []
      else if runeWidth p = 0 then [0xEF, 0xBF, 0xBD] @ replaceInvalidUTF8 (tl p)
      else take (runeWidth p) p @ replaceInvalidUTF8 (drop (runeWidth p) p))"
  by pat_completeness auto
termination
  by (relation "measure length") auto

declare replaceInvalidUTF8.simps [simp del]

text \<open>
  The toy cipher again, with an encoding of the vault data that treats the mnemonic as
  \<open>encoding/json\<close> treats a string: the bytes of the mnemonic, each ill-formed byte replaced.
\<close>

definition example_json_crypto :: "(bytes, bytes) crypto_lib" where
  "example_json_crypto =
     example_crypto
       \<lparr>json_Marshal_VaultData :=
          (\<lambda>vd. if Version vd = 1 then Some (replaceInvalidUTF8 (map of_char (Mnemonic vd)))
                else None)\<rparr>"

definition example_source :: bytes where
  "example_source = replicate 200 7"

text \<open>A toy encoder: a file holds the session or the vault that was written, as it is.\<close>

definition example_manager_lib :: "(SessionData + Vault) manager_lib" where
  "example_manager_lib =
     \<lparr>json_Marshal_Session = (\<lambda>s. Some (Inl s)),
      json_Unmarshal_Session = (\<lambda>f. case f of Inl s \<Rightarrow> Some s | Inr v \<Rightarrow> None),
      json_Marshal_Vault = (\<lambda>v. Some (Inr v)),
      json_Unmarshal_Vault = (\<lambda>f. case f of Inl s \<Rightarrow> None | Inr v \<Rightarrow> Some v),
      bip39_NewMnemonic = (\<lambda>e. Some ''abandon ability able''),
      bip39_IsMnemonicValid = (\<lambda>mn. mn \<noteq> []),
      strings_TrimSpace = (\<lambda>s. s),
      strings_Fields = (\<lambda>s. replicate 24 s)\<rparr>"

definition example_session :: "int \<Rightarrow> string \<Rightarrow> SessionData" where
  "example_session t net =
     \<lparr>Token = ''00'', SessionMnemonic = ''abandon ability able'', Expiration = t, Network = net\<rparr>"

definition example_old_vault :: Vault where
  "example_old_vault = \<lparr>Salt = replicate 32 1, Nonce = replicate 12 2,
                         Data = map of_char ''old'' @ take 32 (map of_char ''secret99'' @ replicate 32 1),
                         MAC = None\<rparr>"

text \<open>The same vault as a damaged file would give it: the nonce has lost a byte.\<close>

definition example_short_nonce_vault :: Vault where
  "example_short_nonce_vault = example_old_vault\<lparr>Nonce := replicate 11 2\<rparr>"

definition example_world ::
  "Vault option \<Rightarrow> SessionData option \<Rightarrow> int \<Rightarrow> (SessionData + Vault) world" where
  "example_world v s t =
     \<lparr>vault_file = map_option Inr v, session_file = map_option Inl s,
      network_file = Some ''mainnet'', mkdir_ok = True, vault_writable = True,
      session_writable = True, clock = t, random = example_source\<rparr>"

definition example_manager :: Manager where
  "example_manager = NewManager example_manager_lib (example_world None None 0)"

text \<open>
  The curve behind \<open>crypto.S256()\<close>, for one concrete key: secp256k1 is \<open>y\<^sup>2 = x\<^sup>3 + 7\<close> over
  the integers modulo the prime below, with the base point \<open>G\<close>; points are added by the chord
  and tangent rule, and \<open>ScalarBaseMult\<close> multiplies \<open>G\<close> by the big-endian scalar.
\<close>

definition secp256k1_P :: int where
  "secp256k1_P = 0xFFFFFFFFFFFFFFFFFFFFFFFFFFFFFFFFFFFFFFFFFFFFFFFFFFFFFFFEFFFFFC2F"

definition secp256k1_G :: "int \<times> int" where
  "secp256k1_G = (0x79BE667EF9DCBBAC55A06295CE870B07029BFCDB2DCE28D959F2815B16F81798,
                  0x483ADA7726A3C4655DA4FBFC0E1108A8FD17B448A68554199C47D08FFB10D4B8)"

function euclid_inverse :: "int \<Rightarrow> int \<Rightarrow> int \<Rightarrow> int \<Rightarrow> int" where
  "euclid_inverse r0 r1 t0 t1 =
     (if r1 = 0 then t0 else euclid_inverse r1 (r0 mod r1) t1 (t0 - (r0 div r1) * t1))"
  by pat_completeness auto
termination
  by (relation "measure (\<lambda>(r0, r1, t0, t1). nat \<bar>r1\<bar>)") (auto simp: abs_mod_less)

declare euclid_inverse.simps [simp del]

definition field_inverse :: "int \<Rightarrow> int" where
  "field_inverse a = euclid_inverse secp256k1_P (a mod secp256k1_P) 0 1 mod secp256k1_P"

definition chord_point :: "int \<Rightarrow> int \<Rightarrow> int \<Rightarrow> int \<Rightarrow> int \<times> int" where
  "chord_point l x1 y1 x2 =
     ((l * l - x1 - x2) mod secp256k1_P,
      (l * (x1 - (l * l - x1 - x2) mod secp256k1_P) - y1) mod secp256k1_P)"

definition point_add :: "(int \<times> int) option \<Rightarrow> (int \<times> int) option \<Rightarrow> (int \<times> int) option" where
  "point_add A B =
     (case A of
        None \<Rightarrow> B
      | Some (x1, y1) \<Rightarrow>
          (case B of
             None \<Rightarrow> A
           | Some (x2, y2) \<Rightarrow>
               if x1 = x2 \<and> (y1 + y2) mod secp256k1_P = 0 then None
               else if x1 = x2
               then Some (chord_point ((3 * x1 * x1 * field_inverse (2 * y1)) mod secp256k1_P) x1 y1 x2)
               else Some (chord_point (((y2 - y1) * field_inverse (x2 - x1)) mod secp256k1_P) x1 y1 x2)))"

fun scalar_mult :: "nat \<Rightarrow> (int \<times> int) \<Rightarrow> (int \<times> int) option" where
  "scalar_mult k A =
     (if k = 0 then None
      else if k mod 2 = 1
      then point_add (point_add (scalar_mult (k div 2) A) (scalar_mult (k div 2) A)) (Some A)
      else point_add (scalar_mult (k div 2) A) (scalar_mult (k div 2) A))"

declare scalar_mult.simps [simp del]

definition secp256k1_ScalarBaseMult :: "bytes \<Rightarrow> int \<times> int" where
  "secp256k1_ScalarBaseMult k =
     (case scalar_mult (nat (SetBytes k)) secp256k1_G of None \<Rightarrow> (0, 0) | Some A \<Rightarrow> A)"

definition secp256k1_2G :: "int \<times> int" where
  "secp256k1_2G =
     (0xC6047F9441ED7D6D3045406E95C07CD85C778E4B8CEF3CA7ABAC09B95C709EE5,
      0x1AE168FEA63DC339A3C58419466CEAEEF7F632653266D0E1236431A950CFE52A)"

definition secp256k1_4G :: "int \<times> int" where
  "secp256k1_4G =
     (0xE493DBF1C10D80F3581E4904930B1404CC6C13900EE0758474FA94ABE8C4CD13,
      0x51ED993EA0D455B75642E2098EA51448D967AE33BFBDFE40CFE97BDC47739922)"

definition secp256k1_8G :: "int \<times> int" where
  "secp256k1_8G =
     (0x2F01E5E15CCA351DAFF3843FB70F3C2F0A1BDD05E5AF888A67784EF3E10A2A01,
      0x5C4DA8A741539949293D082A132D13B4C2E213D6BA5B7617B5DA2CB76CBDE904)"

definition secp256k1_9G :: "int \<times> int" where
  "secp256k1_9G =
     (0xACD484E2F0C7F65309AD178A9F559ABDE09796974C57E714C35F110DFC27CCBE,
      0xCC338921B0A7D9FD64380971763B61E9ADD888A4375F8E0F05CC262AC64F9C37)"

definition secp256k1_18G :: "int \<times> int" where
  "secp256k1_18G =
     (0x5601570CB47F238D2B0286DB4A990FA0F3BA28D1A319F5E7CF55C2A2444DA7CC,
      0xC136C1DC0CBEB930E9E298043589351D81D8E0BC736AE2A1F5192E5E8B061D58)"

definition secp256k1_19G :: "int \<times> int" where
  "secp256k1_19G =
     (0x2B4EA0A797A443D293EF5CFF444F4979F06ACFEBD7E86D277475656138385B6C,
      0x85E89BC037945D93B343083B5A1C86131A01F60C50269763B570C854E5C09B7A)"

definition secp256k1_38G :: "int \<times> int" where
  "secp256k1_38G =
     (0xB699A30E6E184CDFA88AC16C7D80BFFD38E2E1FC705821EA69CD5FDF1691FFF7,
      0xD505700C51D860CE5A096EE637EBED3BD9D7268126C76A16B745BC318A51AB04)"

definition secp256k1_76G :: "int \<times> int" where
  "secp256k1_76G =
     (0x96516A8F65774275278D0D7420A88DF0AC44BD64C7BAE07C3FE397C5B3300B23,
      0xBDACD9A05FB9FB73108C0A99D567FBA9B2F75AB36207E1557F6BF255F1337FF0)"

definition secp256k1_152G :: "int \<times> int" where
  "secp256k1_152G =
     (0xE19D8D416B28EEEFB603B7D5153773222F127B76FF24D7B8419EB6997DEE8D17,
      0xA54B0056FBEB471B0FC534D42AECC4590E2268C7D1679757266E2D163FC83D99)"

definition secp256k1_153G :: "int \<times> int" where
  "secp256k1_153G =
     (0xE3AE1974566CA06CC516D47E0FB165A674A3DABCFCA15E722F0E3450F45889,
      0x2AEABE7E4531510116217F07BF4D07300DE97E4874F81F533420A72EEB0BD6A4)"

text \<open>
  The library with the real curve, and an HMAC that always answers 152 in the left half:
  under the parent key 1 the child key is 153.
\<close>

definition curve_hd_lib :: hd_lib where
  "curve_hd_lib =
     \<lparr>hmac_sha512_Sum = (\<lambda>key data. (replicate 31 0 @ [152]) @ replicate 32 0x01),
      ScalarBaseMult = secp256k1_ScalarBaseMult,
      Keccak256 = (\<lambda>b. replicate 32 0)\<rparr>"

section \<open>Properties of the Bitcoin payment construction\<close>

lemma addInputs_length:
  "addInputs L t us = Inr t' \<Longrightarrow>
     length (Inputs t') = length (Inputs t) + length us \<and> Outputs t' = Outputs t"
proof (induction us arbitrary: t)
  case Nil
  then show ?case by simp
next
  case (Cons u us)
  then show ?case
    by (auto simp: AddInput_def split: sum.splits option.splits)
qed

lemma AddOutput_shape:
  "AddOutput L t v a = Inr t' \<Longrightarrow>
     Inputs t' = Inputs t \<and> (\<exists>s. Outputs t' = Outputs t @ [\<lparr>OutValue = v, PkScript = s\<rparr>])"
  by (auto simp: AddOutput_def split: option.splits)





lemma sendBitcoin_settles:
  assumes "sendBitcoin L s rc v utxos fetched = Inr p"
  shows "\<exists>t1. length (Inputs t1) = length utxos \<and> length (Outputs t1) = 1 \<and>
           settleChange L s t1 (initialTxSize utxos) (feeRateOrDefault fetched) (sumInputs 0 utxos) v
             (initialFee utxos (feeRateOrDefault fetched)) = Inr p"
proof -
  from assms obtain t0 t1 where
    t0: "addInputs L NewTransaction utxos = Inr t0" and
    t1: "AddOutput L t0 v rc = Inr t1" and
    p: "settleChange L s t1 (initialTxSize utxos) (feeRateOrDefault fetched) (sumInputs 0 utxos) v
          (initialFee utxos (feeRateOrDefault fetched)) = Inr p"
    by (auto simp: sendBitcoin_def Let_def split: if_splits sum.splits)
  from addInputs_length[OF t0] AddOutput_shape[OF t1]
  have "length (Inputs t1) = length utxos \<and> length (Outputs t1) = 1"
    by (auto simp: NewTransaction_def)
  with p show ?thesis by blast
qed








lemma settleChange_dust:
  assumes "0 <s tot - v - fee" and "tot - v - fee <s dustThreshold"
  shows "settleChange L a t sz rate tot v fee =
           Inr \<lparr>tx = t, txSize = sz, feeRate = rate, totalInput = tot,
                estimatedFee = fee + (tot - v - fee), change = 0\<rparr>"
  using assms by (simp add: settleChange_def foldDust_def addChange_def word_sless_alt)

lemma settleChange_change:
  assumes big: "dustThreshold \<le>s tot - v - fee"
    and scr: "PayToAddrScript L a = Some scr"
    and pay: "Outputs t \<noteq> []"
  shows "settleChange L a t sz rate tot v fee =
           Inr (let ch = tot - v - fee; newFee = (sz + 34) * rate;
                    ch' = (if fee <s newFee \<and> newFee - fee <s ch then ch - (newFee - fee) else ch)
                in \<lparr>tx = t\<lparr>Outputs := Outputs t @ [\<lparr>OutValue = ch', PkScript = scr\<rparr>]\<rparr>,
                     txSize = sz + 34, feeRate = rate, totalInput = tot,
                     estimatedFee = fee, change = ch'\<rparr>)"
proof -
  let ?ch = "tot - v - fee"
  from big have pos: "0 <s ?ch" and nd: "\<not> ?ch <s dustThreshold"
    by (simp_all add: word_sless_alt word_sle_eq dustThreshold_def)
  have fd: "foldDust \<lparr>tx = t, txSize = sz, feeRate = rate, totalInput = tot,
                  estimatedFee = fee, change = ?ch\<rparr> =
            \<lparr>tx = t, txSize = sz, feeRate = rate, totalInput = tot,
                  estimatedFee = fee, change = ?ch\<rparr>"
    using nd by (simp add: foldDust_def)
  have len: "\<not> Suc (length (Outputs t)) < 2"
    using pay by (cases "Outputs t") simp_all
  show ?thesis
    unfolding settleChange_def fd
    using pos scr len
    by (simp add: addChange_def AddOutput_def adjustChange_def UpdateChangeOutput_def Let_def)
qed

text \<open>
  Claim C5, amended. With \<open>change = totalInput - value - estimatedFee\<close>: when
  \<open>0 < change < 546\<close> the change is added to the fee, the change becomes 0 and the
  transaction gets no change output. When \<open>change \<ge> 546\<close> (and the script of the sender's
  address can be built) a change output is appended and the size grows by 34; in this one
  pass the change is reduced by the increase of the fee only if the recomputed fee is larger
  than the estimated one and the change is larger than that increase, and otherwise the
  change output keeps the full change. Every payment \<open>sendBitcoin\<close> prepares comes out of
  this step, run on a transaction with the one payment output.
\<close>

theorem C5_change_handling:
  "(0 <s tot - v - fee \<and> tot - v - fee <s 546 \<longrightarrow>
      settleChange L a t sz rate tot v fee =
        Inr \<lparr>tx = t, txSize = sz, feeRate = rate, totalInput = tot,
             estimatedFee = fee + (tot - v - fee), change = 0\<rparr>) \<and>
   (546 \<le>s tot - v - fee \<and> PayToAddrScript L a = Some scr \<and> Outputs t \<noteq> [] \<longrightarrow>
      settleChange L a t sz rate tot v fee =
        Inr (let ch = tot - v - fee; newFee = (sz + 34) * rate;
                 ch' = (if fee <s newFee \<and> newFee - fee <s ch then ch - (newFee - fee) else ch)
             in \<lparr>tx = t\<lparr>Outputs := Outputs t @ [\<lparr>OutValue = ch', PkScript = scr\<rparr>]\<rparr>,
                  txSize = sz + 34, feeRate = rate, totalInput = tot,
                  estimatedFee = fee, change = ch'\<rparr>)) \<and>
   (sendBitcoin L a rc v utxos fetched = Inr p \<longrightarrow>
      (\<exists>t1. length (Inputs t1) = length utxos \<and> length (Outputs t1) = 1 \<and>
         settleChange L a t1 (initialTxSize utxos) (feeRateOrDefault fetched) (sumInputs 0 utxos) v
           (initialFee utxos (feeRateOrDefault fetched)) = Inr p))"
proof -
  have one: "0 <s tot - v - fee \<and> tot - v - fee <s 546 \<longrightarrow>
      settleChange L a t sz rate tot v fee =
        Inr \<lparr>tx = t, txSize = sz, feeRate = rate, totalInput = tot,
             estimatedFee = fee + (tot - v - fee), change = 0\<rparr>"
    using settleChange_dust[of tot v fee L a t sz rate] by (simp add: dustThreshold_def)
  have two: "546 \<le>s tot - v - fee \<and> PayToAddrScript L a = Some scr \<and> Outputs t \<noteq> [] \<longrightarrow>
      settleChange L a t sz rate tot v fee =
        Inr (let ch = tot - v - fee; newFee = (sz + 34) * rate;
                 ch' = (if fee <s newFee \<and> newFee - fee <s ch then ch - (newFee - fee) else ch)
             in \<lparr>tx = t\<lparr>Outputs := Outputs t @ [\<lparr>OutValue = ch', PkScript = scr\<rparr>]\<rparr>,
                  txSize = sz + 34, feeRate = rate, totalInput = tot,
                  estimatedFee = fee, change = ch'\<rparr>)"
    using settleChange_change[of tot v fee L a scr t sz rate] by (simp add: dustThreshold_def)
  have three: "sendBitcoin L a rc v utxos fetched = Inr p \<longrightarrow>
      (\<exists>t1. length (Inputs t1) = length utxos \<and> length (Outputs t1) = 1 \<and>
         settleChange L a t1 (initialTxSize utxos) (feeRateOrDefault fetched) (sumInputs 0 utxos) v
           (initialFee utxos (feeRateOrDefault fetched)) = Inr p)"
    using sendBitcoin_settles[of L a rc v utxos fetched p] by blast
  from one two three show ?thesis by blast
qed

theorem C5_change_handling_witness:
  "settleChange example_btcd ''me'' example_paid 154 1 100000 99500 400 =
     Inr \<lparr>tx = example_paid, txSize = 154, feeRate = 1, totalInput = 100000,
          estimatedFee = 500, change = 0\<rparr> \<and>
   settleChange example_btcd ''me'' example_paid 200 10 100000 50000 2000 =
     Inr \<lparr>tx = example_paid\<lparr>Outputs := [\<lparr>OutValue = 50000, PkScript = []\<rparr>,
                                          \<lparr>OutValue = 47660, PkScript = []\<rparr>]\<rparr>,
          txSize = 234, feeRate = 10, totalInput = 100000, estimatedFee = 2000, change = 47660\<rparr>"
proof -
  have h1: "0 <s (100000 - 99500 - 400 :: int64) \<and> (100000 - 99500 - 400 :: int64) <s 546"
    by (simp add: word_sless_alt)
  have h2: "546 \<le>s (100000 - 50000 - 2000 :: int64) \<and>
            PayToAddrScript example_btcd ''me'' = Some [] \<and> Outputs example_paid \<noteq> []"
    by (simp add: word_sle_eq example_btcd_def example_paid_def)
  from h1 h2
    C5_change_handling[of 100000 99500 400 example_btcd "''me''" example_paid 154 1]
    C5_change_handling[of 100000 50000 2000 example_btcd "''me''" example_paid 200 10 "[]"]
  show ?thesis
    by (simp add: Let_def word_sless_alt example_paid_def)
qed

text \<open>
  Claim C5 as stated fails: with one input of 13680 satoshis, a payment of 10000 and a rate
  of 20, the estimated fee is 3080 and the change 600, which is no dust; the fee of the
  larger transaction is 3760, an increase of 680, and the change stays 600.
\<close>

theorem C5_counterexample:
  "initialFee [example_utxo 13680] 20 = 3080 \<and>
   sumInputs 0 [example_utxo 13680] - 10000 - initialFee [example_utxo 13680] 20 = 600 \<and>
   546 \<le>s (600 :: int64) \<and>
   (initialTxSize [example_utxo 13680] + 34) * 20 = 3760 \<and>
   (3080 :: int64) <s 3760 \<and>
   map_sum id change
     (sendBitcoin example_btcd ''me'' ''you'' 10000 [example_utxo 13680] (Some 20)
        :: pay_error + string payment) = Inr 600 \<and>
   (600 :: int64) \<noteq> 600 - (3760 - 3080)"
  by (simp add: sendBitcoin_def example_btcd_def example_utxo_def feeRateOrDefault_def
      NewTransaction_def AddInput_def AddOutput_def settleChange_def initialTxSize_def
      initialFee_def foldDust_def addChange_def adjustChange_def UpdateChangeOutput_def
      dustThreshold_def Let_def word_sless_alt word_sle_eq)

section \<open>Properties of the Solana blockhash validation\<close>

lemma invalidPosition_None: "(invalidPosition i s = None) = (set s \<subseteq> set base58Chars)"
  by (induction s arbitrary: i) auto

lemma invalidPosition_Some:
  "invalidPosition i s = Some j \<Longrightarrow>
     i \<le> j \<and> j - i < length s \<and> s ! (j - i) \<notin> set base58Chars \<and>
     set (take (j - i) s) \<subseteq> set base58Chars"
proof (induction s arbitrary: i)
  case Nil
  then show ?case by simp
next
  case (Cons c cs)
  show ?case
  proof (cases "c \<in> set base58Chars")
    case True
    with Cons.prems have "invalidPosition (Suc i) cs = Some j" by simp
    from Cons.IH[OF this] True show ?thesis
      by (auto simp: Suc_diff_le nth_Cons' take_Cons' split: if_splits)
  next
    case False
    with Cons.prems show ?thesis by simp
  qed
qed

lemma signAndSerialize_no_blockhashError:
  "signAndSerialize L t h = Inl e \<Longrightarrow> \<not> blockhashError e"
  by (auto simp: signAndSerialize_def split: option.splits if_splits)

text \<open>
  Claim C8. \<open>BuildAndSign\<close> rejects the blockhash before anything is built or signed: an
  empty blockhash, a blockhash with a character outside the base58 alphabet (reported at the
  first such position), and a blockhash shorter than 32 characters all fail, so \<open>abc\<close> fails
  as too short. A blockhash of base58 characters only and of at least 32 characters that
  \<open>solana.HashFromBase58\<close> decodes passes the validation: the result is that of building and
  signing with the decoded hash, and it is none of the blockhash errors.
\<close>

theorem C8_blockhash_validation:
  "(RecentBlockhash t = [] \<longrightarrow> BuildAndSign L t = Inl BlockhashEmpty) \<and>
   (\<not> set (RecentBlockhash t) \<subseteq> set base58Chars \<longrightarrow>
      (\<exists>i < length (RecentBlockhash t).
          BuildAndSign L t = Inl (InvalidBase58Char i) \<and>
          RecentBlockhash t ! i \<notin> set base58Chars \<and>
          set (take i (RecentBlockhash t)) \<subseteq> set base58Chars)) \<and>
   (length (RecentBlockhash t) < 32 \<longrightarrow>
      (\<exists>e. BuildAndSign L t = Inl e \<and> blockhashError e)) \<and>
   (RecentBlockhash t = ''abc'' \<longrightarrow> BuildAndSign L t = Inl (BlockhashTooShort 3)) \<and>
   (set (RecentBlockhash t) \<subseteq> set base58Chars \<and> 32 \<le> length (RecentBlockhash t) \<and>
    HashFromBase58 L (RecentBlockhash t) = Some h \<longrightarrow>
      BuildAndSign L t = signAndSerialize L t h \<and>
      (\<forall>e. BuildAndSign L t = Inl e \<longrightarrow> \<not> blockhashError e))"
proof -
  let ?b = "RecentBlockhash t"
  have empty: "?b = [] \<longrightarrow> BuildAndSign L t = Inl BlockhashEmpty"
    by (simp add: BuildAndSign_def)
  have bad: "\<not> set ?b \<subseteq> set base58Chars \<longrightarrow>
      (\<exists>i < length ?b. BuildAndSign L t = Inl (InvalidBase58Char i) \<and>
          ?b ! i \<notin> set base58Chars \<and> set (take i ?b) \<subseteq> set base58Chars)"
  proof
    assume n: "\<not> set ?b \<subseteq> set base58Chars"
    then have ne: "?b \<noteq> []" by auto
    from n obtain j where j: "invalidPosition 0 ?b = Some j"
      using invalidPosition_None[of 0 ?b] by (cases "invalidPosition 0 ?b") auto
    from invalidPosition_Some[OF j] have
      "j < length ?b \<and> ?b ! j \<notin> set base58Chars \<and> set (take j ?b) \<subseteq> set base58Chars"
      by simp
    moreover have "BuildAndSign L t = Inl (InvalidBase58Char j)"
      using ne j by (simp add: BuildAndSign_def)
    ultimately show "\<exists>i < length ?b. BuildAndSign L t = Inl (InvalidBase58Char i) \<and>
          ?b ! i \<notin> set base58Chars \<and> set (take i ?b) \<subseteq> set base58Chars"
      by blast
  qed
  have short: "length ?b < 32 \<longrightarrow> (\<exists>e. BuildAndSign L t = Inl e \<and> blockhashError e)"
    by (auto simp: BuildAndSign_def split: option.splits)
  have abc: "?b = ''abc'' \<longrightarrow> BuildAndSign L t = Inl (BlockhashTooShort 3)"
    by (simp add: BuildAndSign_def base58Chars_def)
  have good: "set ?b \<subseteq> set base58Chars \<and> 32 \<le> length ?b \<and> HashFromBase58 L ?b = Some h \<longrightarrow>
      BuildAndSign L t = signAndSerialize L t h \<and>
      (\<forall>e. BuildAndSign L t = Inl e \<longrightarrow> \<not> blockhashError e)"
  proof
    assume a: "set ?b \<subseteq> set base58Chars \<and> 32 \<le> length ?b \<and> HashFromBase58 L ?b = Some h"
    then have ne: "?b \<noteq> []" by auto
    from a have none: "invalidPosition 0 ?b = None" by (simp add: invalidPosition_None)
    from a ne none have eq: "BuildAndSign L t = signAndSerialize L t h"
      by (simp add: BuildAndSign_def)
    with signAndSerialize_no_blockhashError[of L t h]
    show "BuildAndSign L t = signAndSerialize L t h \<and>
      (\<forall>e. BuildAndSign L t = Inl e \<longrightarrow> \<not> blockhashError e)"
      by simp
  qed
  from empty bad short abc good show ?thesis by blast
qed

theorem C8_blockhash_validation_witness:
  "BuildAndSign example_solana_go (example_transfer []) = Inl BlockhashEmpty \<and>
   BuildAndSign example_solana_go (example_transfer ''ab0c'') = Inl (InvalidBase58Char 2) \<and>
   BuildAndSign example_solana_go (example_transfer ''abc'') = Inl (BlockhashTooShort 3) \<and>
   BuildAndSign example_solana_go (example_transfer ''11111111111111111111111111111111'') = Inr ''1''"
proof -
  have h1: "RecentBlockhash (example_transfer []) = []"
    by (simp add: example_transfer_def)
  have h2: "\<not> set (RecentBlockhash (example_transfer ''ab0c'')) \<subseteq> set base58Chars"
    by (simp add: example_transfer_def base58Chars_def)
  have h3: "RecentBlockhash (example_transfer ''abc'') = ''abc''"
    by (simp add: example_transfer_def)
  have h4: "set (RecentBlockhash (example_transfer ''11111111111111111111111111111111''))
              \<subseteq> set base58Chars \<and>
            32 \<le> length (RecentBlockhash (example_transfer ''11111111111111111111111111111111'')) \<and>
            HashFromBase58 example_solana_go
              (RecentBlockhash (example_transfer ''11111111111111111111111111111111''))
              = Some ''11111111111111111111111111111111''"
    by (simp add: example_transfer_def base58Chars_def example_solana_go_def)
  have f: "signAndSerialize example_solana_go (example_transfer ''11111111111111111111111111111111'')
             ''11111111111111111111111111111111'' = Inr ''1''"
    by (simp add: signAndSerialize_def example_solana_go_def example_transfer_def)
  have two: "BuildAndSign example_solana_go (example_transfer ''ab0c'') = Inl (InvalidBase58Char 2)"
  proof -
    from h2 C8_blockhash_validation[of "example_transfer ''ab0c''" example_solana_go]
    obtain i where i: "i < length (RecentBlockhash (example_transfer ''ab0c''))"
      "BuildAndSign example_solana_go (example_transfer ''ab0c'') = Inl (InvalidBase58Char i)"
      "RecentBlockhash (example_transfer ''ab0c'') ! i \<notin> set base58Chars"
      "set (take i (RecentBlockhash (example_transfer ''ab0c''))) \<subseteq> set base58Chars"
      by blast
    from i(1) have "i = 0 \<or> i = 1 \<or> i = 2 \<or> i = 3"
      by (auto simp: example_transfer_def)
    with i(3,4) have "i = 2"
      by (auto simp: example_transfer_def base58Chars_def)
    with i(2) show ?thesis by simp
  qed
  from h1 C8_blockhash_validation[of "example_transfer []" example_solana_go]
  have one: "BuildAndSign example_solana_go (example_transfer []) = Inl BlockhashEmpty" by blast
  from h3 C8_blockhash_validation[of "example_transfer ''abc''" example_solana_go]
  have three: "BuildAndSign example_solana_go (example_transfer ''abc'') = Inl (BlockhashTooShort 3)"
    by blast
  from h4 f C8_blockhash_validation[of "example_transfer ''11111111111111111111111111111111''"
       example_solana_go "''11111111111111111111111111111111''"]
  have four: "BuildAndSign example_solana_go (example_transfer ''11111111111111111111111111111111'')
                = Inr ''1''"
    by simp
  from one two three four show ?thesis by blast
qed

section \<open>Properties of the key derivation\<close>

lemma SetBytes_from_append:
  "SetBytes_from acc (xs @ ys) = SetBytes_from (SetBytes_from acc xs) ys"
  by (induction xs arbitrary: acc) simp_all

lemma SetBytes_snoc: "SetBytes (xs @ [b]) = SetBytes xs * 256 + uint b"
  by (simp add: SetBytes_def SetBytes_from_append)

lemma SetBytes_from_zeros: "SetBytes_from 0 (replicate k 0 @ bs) = SetBytes_from 0 bs"
  by (induction k) simp_all

lemma SetBytes_zeros: "SetBytes (replicate k 0 @ bs) = SetBytes bs"
  by (simp add: SetBytes_def SetBytes_from_zeros)

lemma uint_low_byte: "uint (word_of_int (n mod 256) :: byte) = n mod 256"
  by (simp add: uint_word_of_int take_bit_eq_mod)

lemma magnitudeBytes_nonpos: "n \<le> 0 \<Longrightarrow> magnitudeBytes n = []"
  by (subst magnitudeBytes.simps) simp

lemma magnitudeBytes_pos:
  "0 < n \<Longrightarrow> magnitudeBytes n = magnitudeBytes (n div 256) @ [word_of_int (n mod 256)]"
  by (subst magnitudeBytes.simps) simp

lemma SetBytes_magnitudeBytes: "0 \<le> n \<Longrightarrow> SetBytes (magnitudeBytes n) = n"
proof (induction n rule: magnitudeBytes.induct)
  case (1 n)
  show ?case
  proof (cases "n \<le> 0")
    case True
    with "1.prems" show ?thesis by (simp add: SetBytes_def magnitudeBytes_nonpos)
  next
    case False
    then have "SetBytes (magnitudeBytes (n div 256)) = n div 256"
      using "1.IH" by simp
    with False show ?thesis
      by (simp add: magnitudeBytes_pos SetBytes_snoc uint_low_byte)
  qed
qed

lemma SetBytes_Bytes: "0 \<le> x \<Longrightarrow> SetBytes (Bytes x) = x"
  by (simp add: Bytes_def SetBytes_magnitudeBytes)

lemma magnitudeBytes_length_le: "n < 256 ^ k \<Longrightarrow> length (magnitudeBytes n) \<le> k"
proof (induction k arbitrary: n)
  case 0
  then show ?case by (simp add: magnitudeBytes_nonpos)
next
  case (Suc k)
  show ?case
  proof (cases "n \<le> 0")
    case True
    then show ?thesis by (simp add: magnitudeBytes_nonpos)
  next
    case False
    from Suc.prems have "n div 256 < 256 ^ k" by simp
    from Suc.IH[OF this] False show ?thesis
      by (simp add: magnitudeBytes_pos)
  qed
qed

lemma magnitudeBytes_length_gt: "256 ^ k \<le> n \<Longrightarrow> k < length (magnitudeBytes n)"
proof (induction k arbitrary: n)
  case 0
  then show ?case by (simp add: magnitudeBytes_pos)
next
  case (Suc k)
  have "(0::int) < 256 ^ Suc k" by simp
  with Suc.prems have pos: "0 < n" by linarith
  from Suc.prems have "256 ^ k \<le> n div 256" by simp
  from Suc.IH[OF this] pos show ?case
    by (simp add: magnitudeBytes_pos)
qed

lemma Bytes_length_le: "0 \<le> x \<Longrightarrow> x < 256 ^ k \<Longrightarrow> length (Bytes x) \<le> k"
  by (simp add: Bytes_def magnitudeBytes_length_le)

lemma Bytes_length_gt: "256 ^ k \<le> x \<Longrightarrow> k < length (Bytes x)"
proof -
  assume a: "256 ^ k \<le> x"
  have "(0::int) \<le> 256 ^ k" by simp
  with a have "0 \<le> x" by linarith
  with a show ?thesis by (simp add: Bytes_def magnitudeBytes_length_gt)
qed

lemma curveOrder_bounds: "0 < curveOrder \<and> curveOrder < 256 ^ 32"
  by (simp add: curveOrder_def)

lemma derivePublicKey_length:
  "length (derivePublicKey L k) = 1 + length (Bytes (fst (ScalarBaseMult L k)))"
  by (simp add: derivePublicKey_def split: prod.splits)

lemma childFromHash_result:
  assumes len: "length hash = 64"
  shows "(childFromHash L p c hash = Inl InvalidPrivateKey) =
           ((SetBytes (PrivateKey p) + SetBytes (take 32 hash)) mod curveOrder = 0)"
    and "(SetBytes (PrivateKey p) + SetBytes (take 32 hash)) mod curveOrder \<noteq> 0 \<Longrightarrow>
         4 \<le> length (Keccak256 L (PublicKey p)) \<Longrightarrow>
         \<exists>child. childFromHash L p c hash = Inr child \<and>
           SetBytes (PrivateKey child) = (SetBytes (PrivateKey p) + SetBytes (take 32 hash)) mod curveOrder \<and>
           length (PrivateKey child) = 32 \<and>
           PublicKey child = derivePublicKey L (PrivateKey child) \<and>
           ChainCode child = drop 32 hash \<and> ChildNum child = c \<and> Depth child = Depth p + 1"
proof -
  let ?k = "(SetBytes (PrivateKey p) + SetBytes (take 32 hash)) mod curveOrder"
  show "(childFromHash L p c hash = Inl InvalidPrivateKey) = (?k = 0)"
    using len by (auto simp: childFromHash_def Let_def parentFingerprint_def split: sum.splits)
  assume nz: "?k \<noteq> 0" and kec: "4 \<le> length (Keccak256 L (PublicKey p))"
  have k0: "0 \<le> ?k"
    using curveOrder_bounds by simp
  have "?k < curveOrder"
    using curveOrder_bounds by (intro pos_mod_bound) blast
  with curveOrder_bounds have k1: "?k < 256 ^ 32"
    by (rule_tac order.strict_trans[of _ curveOrder]) blast+
  from Bytes_length_le[OF k0 k1] have bl: "length (Bytes ?k) \<le> 32" .
  let ?new = "if length (Bytes ?k) < 32 then replicate (32 - length (Bytes ?k)) 0 @ Bytes ?k else Bytes ?k"
  have v: "SetBytes ?new = ?k"
    by (simp add: SetBytes_zeros SetBytes_Bytes[OF k0])
  have l: "length ?new = 32" using bl by auto
  from len nz kec
  have "childFromHash L p c hash =
          Inr \<lparr>PrivateKey = ?new, PublicKey = derivePublicKey L ?new, ChainCode = drop 32 hash,
               Depth = Depth p + 1, ChildNum = c,
               Fingerprint = Uint32 (take 4 (Keccak256 L (PublicKey p)))\<rparr>"
    by (simp add: childFromHash_def Let_def parentFingerprint_def)
  with v l show "\<exists>child. childFromHash L p c hash = Inr child \<and>
           SetBytes (PrivateKey child) = ?k \<and> length (PrivateKey child) = 32 \<and>
           PublicKey child = derivePublicKey L (PrivateKey child) \<and>
           ChainCode child = drop 32 hash \<and> ChildNum child = c \<and> Depth child = Depth p + 1"
    by simp
qed

lemma deriveChild_PublicKey:
  "deriveChild L p c = Inr child \<Longrightarrow> PublicKey child = derivePublicKey L (PrivateKey child)"
  by (auto simp: deriveChild_def childFromHash_def Let_def split: if_splits sum.splits)

text \<open>
  The master key is checked with \<open>isValidPrivateKey\<close>, which refuses the left half of the
  hash when it is not below the order of the group.
\<close>

lemma newMasterKey_checks_order:
  "length (hmacSHA512 L (map of_char ''Bitcoin seed'') seed) = 64 \<Longrightarrow>
   curveOrder \<le> SetBytes (take 32 (hmacSHA512 L (map of_char ''Bitcoin seed'') seed)) \<Longrightarrow>
   newMasterKey L seed = Inl InvalidPrivateKey"
  by (simp add: newMasterKey_def Let_def isValidPrivateKey_def)

text \<open>
  Claim C2, as the code has it. With \<open>I\<close> the HMAC-SHA512 of the message under the parent's
  chain code, of 64 bytes, the child's private key is \<open>(I[0:32] + parentPrivateKey) mod n\<close>,
  written on 32 bytes, and \<open>deriveChild\<close> returns the invalid-key error exactly when this
  sum is 0. Nothing compares \<open>I[0:32]\<close> with the order \<open>n\<close>: when it is not below \<open>n\<close> and the
  sum is not 0, the child is derived all the same.
\<close>

theorem C2_deriveChild_private_key:
  "length (hmacSHA512 L (ChainCode p) (childData p c)) = 64 \<longrightarrow>
     ((deriveChild L p c = Inl InvalidPrivateKey) =
        ((SetBytes (PrivateKey p) + SetBytes (take 32 (hmacSHA512 L (ChainCode p) (childData p c))))
           mod curveOrder = 0)) \<and>
     ((SetBytes (PrivateKey p) + SetBytes (take 32 (hmacSHA512 L (ChainCode p) (childData p c))))
           mod curveOrder \<noteq> 0 \<and>
      4 \<le> length (Keccak256 L (PublicKey p)) \<longrightarrow>
        (\<exists>child. deriveChild L p c = Inr child \<and>
           SetBytes (PrivateKey child) =
             (SetBytes (PrivateKey p) + SetBytes (take 32 (hmacSHA512 L (ChainCode p) (childData p c))))
               mod curveOrder \<and>
           length (PrivateKey child) = 32 \<and>
           ChainCode child = drop 32 (hmacSHA512 L (ChainCode p) (childData p c))))"
proof
  let ?I = "hmacSHA512 L (ChainCode p) (childData p c)"
  assume len: "length ?I = 64"
  from childFromHash_result(1)[OF len, where L = L and p = p and c = c]
  have a: "(deriveChild L p c = Inl InvalidPrivateKey) =
        ((SetBytes (PrivateKey p) + SetBytes (take 32 ?I)) mod curveOrder = 0)"
    by (simp add: deriveChild_def)
  have b: "(SetBytes (PrivateKey p) + SetBytes (take 32 ?I)) mod curveOrder \<noteq> 0 \<and>
      4 \<le> length (Keccak256 L (PublicKey p)) \<longrightarrow>
        (\<exists>child. deriveChild L p c = Inr child \<and>
           SetBytes (PrivateKey child) = (SetBytes (PrivateKey p) + SetBytes (take 32 ?I)) mod curveOrder \<and>
           length (PrivateKey child) = 32 \<and> ChainCode child = drop 32 ?I)"
  proof
    assume h: "(SetBytes (PrivateKey p) + SetBytes (take 32 ?I)) mod curveOrder \<noteq> 0 \<and>
      4 \<le> length (Keccak256 L (PublicKey p))"
    then have nz: "(SetBytes (PrivateKey p) + SetBytes (take 32 ?I)) mod curveOrder \<noteq> 0"
      and kec: "4 \<le> length (Keccak256 L (PublicKey p))"
      by simp_all
    from childFromHash_result(2)[OF len nz kec, where c = c]
    obtain child where "childFromHash L p c ?I = Inr child"
      "SetBytes (PrivateKey child) = (SetBytes (PrivateKey p) + SetBytes (take 32 ?I)) mod curveOrder"
      "length (PrivateKey child) = 32" "ChainCode child = drop 32 ?I"
      by auto
    then show "\<exists>child. deriveChild L p c = Inr child \<and>
           SetBytes (PrivateKey child) = (SetBytes (PrivateKey p) + SetBytes (take 32 ?I)) mod curveOrder \<and>
           length (PrivateKey child) = 32 \<and> ChainCode child = drop 32 ?I"
      by (simp add: deriveChild_def)
  qed
  from a b show "((deriveChild L p c = Inl InvalidPrivateKey) =
        ((SetBytes (PrivateKey p) + SetBytes (take 32 ?I)) mod curveOrder = 0)) \<and>
     ((SetBytes (PrivateKey p) + SetBytes (take 32 ?I)) mod curveOrder \<noteq> 0 \<and>
      4 \<le> length (Keccak256 L (PublicKey p)) \<longrightarrow>
        (\<exists>child. deriveChild L p c = Inr child \<and>
           SetBytes (PrivateKey child) = (SetBytes (PrivateKey p) + SetBytes (take 32 ?I)) mod curveOrder \<and>
           length (PrivateKey child) = 32 \<and> ChainCode child = drop 32 ?I))"
    by blast
qed

lemma example_hmac:
  "hmacSHA512 example_hd_lib (ChainCode example_parent) (childData example_parent 0)
     = replicate 32 0xFF @ replicate 32 0x01"
  by (simp add: hmacSHA512_def example_hd_lib_def)

lemma example_il: "SetBytes (replicate 32 0xFF) = 2 ^ 256 - 1"
  by code_simp

text \<open>
  A hash whose left half is \<open>2^256 - 1\<close>, above the order, under a parent key 1: the sum is
  not 0 modulo the order, and the child is derived.
\<close>

theorem C2_deriveChild_private_key_witness:
  "curveOrder \<le> SetBytes (take 32 (hmacSHA512 example_hd_lib (ChainCode example_parent)
                                       (childData example_parent 0))) \<and>
   deriveChild example_hd_lib example_parent 0 \<noteq> Inl InvalidPrivateKey \<and>
   (\<exists>child. deriveChild example_hd_lib example_parent 0 = Inr child \<and>
      SetBytes (PrivateKey child) = 2 ^ 256 - curveOrder \<and> length (PrivateKey child) = 32)"
proof -
  have len: "length (hmacSHA512 example_hd_lib (ChainCode example_parent) (childData example_parent 0)) = 64"
    by (simp add: example_hmac)
  have il: "SetBytes (take 32 (hmacSHA512 example_hd_lib (ChainCode example_parent)
                                 (childData example_parent 0))) = 2 ^ 256 - 1"
    by (simp add: example_hmac example_il)
  have pk: "SetBytes (PrivateKey example_parent) = 1"
    by (simp add: example_parent_def SetBytes_zeros) (simp add: SetBytes_def)
  have k: "(SetBytes (PrivateKey example_parent) +
            SetBytes (take 32 (hmacSHA512 example_hd_lib (ChainCode example_parent)
                                 (childData example_parent 0)))) mod curveOrder = 2 ^ 256 - curveOrder"
    unfolding il pk by (simp add: curveOrder_def)
  have nz: "(2 ^ 256 - curveOrder :: int) \<noteq> 0" by (simp add: curveOrder_def)
  have kec: "4 \<le> length (Keccak256 example_hd_lib (PublicKey example_parent))"
    by (simp add: example_hd_lib_def)
  have ge: "curveOrder \<le> 2 ^ 256 - 1" by (simp add: curveOrder_def)
  from C2_deriveChild_private_key[of example_hd_lib example_parent 0] len k nz kec
  have "deriveChild example_hd_lib example_parent 0 \<noteq> Inl InvalidPrivateKey \<and>
   (\<exists>child. deriveChild example_hd_lib example_parent 0 = Inr child \<and>
      SetBytes (PrivateKey child) = 2 ^ 256 - curveOrder \<and> length (PrivateKey child) = 32)"
    by auto
  with il ge show ?thesis by simp
qed

text \<open>
  Claim C9. \<open>derivePublicKey\<close> is the prefix byte 2 or 3 followed by the shortest big-endian
  form of the x-coordinate, with no padding: it has 33 bytes when \<open>2^248 \<le> x < 2^256\<close> and
  fewer when \<open>x < 2^248\<close>, that is when x has at least 8 leading zero bits. Every key
  \<open>deriveChild\<close> returns carries this public key, and a derivation below it at an index that
  is not hardened gives the HMAC this public key followed by the four index bytes, so fewer
  than 37 bytes when the public key is short.
\<close>

theorem C9_public_key_not_padded:
  "derivePublicKey L k =
     (if snd (ScalarBaseMult L k) mod 2 = 0 then 0x02 else 0x03) # Bytes (fst (ScalarBaseMult L k)) \<and>
   (0 \<le> fst (ScalarBaseMult L k) \<and> fst (ScalarBaseMult L k) < 2 ^ 248 \<longrightarrow>
      length (derivePublicKey L k) < 33) \<and>
   (2 ^ 248 \<le> fst (ScalarBaseMult L k) \<and> fst (ScalarBaseMult L k) < 2 ^ 256 \<longrightarrow>
      length (derivePublicKey L k) = 33) \<and>
   (deriveChild L p c = Inr child \<longrightarrow> PublicKey child = derivePublicKey L (PrivateKey child)) \<and>
   (\<not> isHardened c' \<longrightarrow>
      childData child c' = PublicKey child @ PutUint32 c' \<and>
      deriveChild L child c' =
        childFromHash L child c' (hmacSHA512 L (ChainCode child) (PublicKey child @ PutUint32 c'))) \<and>
   (deriveChild L p c = Inr child \<and> \<not> isHardened c' \<and>
    0 \<le> fst (ScalarBaseMult L (PrivateKey child)) \<and>
    fst (ScalarBaseMult L (PrivateKey child)) < 2 ^ 248 \<longrightarrow>
      length (childData child c') < 37)"
proof -
  have p31: "(2::int) ^ 248 = 256 ^ 31" and p32: "(2::int) ^ 256 = 256 ^ 32" by simp_all
  have short: "length (derivePublicKey L q) < 33"
    if "0 \<le> fst (ScalarBaseMult L q) \<and> fst (ScalarBaseMult L q) < 2 ^ 248" for q
    using that Bytes_length_le[of "fst (ScalarBaseMult L q)" 31]
    unfolding p31 by (simp add: derivePublicKey_length)
  have a: "derivePublicKey L k =
     (if snd (ScalarBaseMult L k) mod 2 = 0 then 0x02 else 0x03) # Bytes (fst (ScalarBaseMult L k))"
    by (simp add: derivePublicKey_def split: prod.splits)
  have b: "0 \<le> fst (ScalarBaseMult L k) \<and> fst (ScalarBaseMult L k) < 2 ^ 248 \<longrightarrow>
      length (derivePublicKey L k) < 33"
    using short[of k] by blast
  have c: "2 ^ 248 \<le> fst (ScalarBaseMult L k) \<and> fst (ScalarBaseMult L k) < 2 ^ 256 \<longrightarrow>
      length (derivePublicKey L k) = 33"
  proof
    assume h: "2 ^ 248 \<le> fst (ScalarBaseMult L k) \<and> fst (ScalarBaseMult L k) < 2 ^ 256"
    then have "0 \<le> fst (ScalarBaseMult L k)" by (smt (verit) zero_le_power)
    with h Bytes_length_le[of "fst (ScalarBaseMult L k)" 32]
         Bytes_length_gt[of 31 "fst (ScalarBaseMult L k)"]
    show "length (derivePublicKey L k) = 33"
      unfolding p31 p32 by (simp add: derivePublicKey_length)
  qed
  have d: "deriveChild L p c = Inr child \<longrightarrow> PublicKey child = derivePublicKey L (PrivateKey child)"
    using deriveChild_PublicKey[of L p c child] by blast
  have e: "\<not> isHardened c' \<longrightarrow>
      childData child c' = PublicKey child @ PutUint32 c' \<and>
      deriveChild L child c' =
        childFromHash L child c' (hmacSHA512 L (ChainCode child) (PublicKey child @ PutUint32 c'))"
    by (simp add: childData_def deriveChild_def)
  have f: "deriveChild L p c = Inr child \<and> \<not> isHardened c' \<and>
    0 \<le> fst (ScalarBaseMult L (PrivateKey child)) \<and>
    fst (ScalarBaseMult L (PrivateKey child)) < 2 ^ 248 \<longrightarrow>
      length (childData child c') < 37"
  proof
    assume h: "deriveChild L p c = Inr child \<and> \<not> isHardened c' \<and>
      0 \<le> fst (ScalarBaseMult L (PrivateKey child)) \<and>
      fst (ScalarBaseMult L (PrivateKey child)) < 2 ^ 248"
    with deriveChild_PublicKey[of L p c child] short[of "PrivateKey child"]
    have "length (PublicKey child) < 33" by simp
    with h show "length (childData child c') < 37"
      by (simp add: childData_def PutUint32_def)
  qed
  from a b c d e f show ?thesis by blast
qed

lemma point_add_None: "point_add None B = B"
  by (simp add: point_add_def)

lemma point_2G: "point_add (Some secp256k1_G) (Some secp256k1_G) = Some secp256k1_2G"
  unfolding secp256k1_2G_def secp256k1_G_def
  by code_simp

lemma point_4G: "point_add (Some secp256k1_2G) (Some secp256k1_2G) = Some secp256k1_4G"
  unfolding secp256k1_2G_def secp256k1_4G_def
  by code_simp

lemma point_8G: "point_add (Some secp256k1_4G) (Some secp256k1_4G) = Some secp256k1_8G"
  unfolding secp256k1_4G_def secp256k1_8G_def
  by code_simp

lemma point_9G: "point_add (Some secp256k1_8G) (Some secp256k1_G) = Some secp256k1_9G"
  unfolding secp256k1_8G_def secp256k1_9G_def secp256k1_G_def
  by code_simp

lemma point_18G: "point_add (Some secp256k1_9G) (Some secp256k1_9G) = Some secp256k1_18G"
  unfolding secp256k1_18G_def secp256k1_9G_def
  by code_simp

lemma point_19G: "point_add (Some secp256k1_18G) (Some secp256k1_G) = Some secp256k1_19G"
  unfolding secp256k1_18G_def secp256k1_19G_def secp256k1_G_def
  by code_simp

lemma point_38G: "point_add (Some secp256k1_19G) (Some secp256k1_19G) = Some secp256k1_38G"
  unfolding secp256k1_19G_def secp256k1_38G_def
  by code_simp

lemma point_76G: "point_add (Some secp256k1_38G) (Some secp256k1_38G) = Some secp256k1_76G"
  unfolding secp256k1_38G_def secp256k1_76G_def
  by code_simp

lemma point_152G: "point_add (Some secp256k1_76G) (Some secp256k1_76G) = Some secp256k1_152G"
  unfolding secp256k1_152G_def secp256k1_76G_def
  by code_simp

lemma point_153G: "point_add (Some secp256k1_152G) (Some secp256k1_G) = Some secp256k1_153G"
  unfolding secp256k1_152G_def secp256k1_153G_def secp256k1_G_def
  by code_simp

lemma secp256k1_key_153:
  "secp256k1_ScalarBaseMult (replicate 31 0 @ [153]) = secp256k1_153G"
proof -
  have k: "nat (SetBytes (replicate 31 0 @ [153])) = 153"
    by (simp add: SetBytes_zeros) (simp add: SetBytes_def)
  have "scalar_mult 153 secp256k1_G = Some secp256k1_153G"
    by (simp add: scalar_mult.simps point_add_None point_2G point_4G point_8G point_9G point_18G
        point_19G point_38G point_76G point_152G point_153G)
  with k show ?thesis by (simp add: secp256k1_ScalarBaseMult_def)
qed

lemma secp256k1_key_153_short: "0 \<le> fst secp256k1_153G \<and> fst secp256k1_153G < 2 ^ 248"
  by (simp add: secp256k1_153G_def)

text \<open>
  The private key 153 has a public key whose x-coordinate is below \<open>2^248\<close>: its
  compressed form has fewer than 33 bytes, and a derivation below it feeds the HMAC fewer
  than 37 bytes.
\<close>

lemma curve_child:
  "deriveChild curve_hd_lib example_parent 0 =
     Inr \<lparr>PrivateKey = replicate 31 0 @ [153],
          PublicKey = derivePublicKey curve_hd_lib (replicate 31 0 @ [153]),
          ChainCode = replicate 32 0x01, Depth = 1, ChildNum = 0, Fingerprint = 0\<rparr>"
proof -
  have p: "SetBytes (replicate 31 0 @ [1]) = 1"
    by (simp add: SetBytes_zeros) (simp add: SetBytes_def)
  have il: "SetBytes (replicate 31 0 @ [152]) = 152"
    by (simp add: SetBytes_zeros) (simp add: SetBytes_def)
  have k: "153 mod curveOrder = 153"
    by (simp add: curveOrder_def)
  have b: "Bytes 153 = [153]"
    by (simp add: Bytes_def magnitudeBytes.simps)
  have f: "Uint32 (replicate 4 0) = 0"
    by code_simp
  show ?thesis
    unfolding deriveChild_def
    by (simp add: childFromHash_def hmacSHA512_def curve_hd_lib_def Let_def p il k b f
        parentFingerprint_def example_parent_def)
qed

theorem C9_public_key_not_padded_witness:
  "deriveChild curve_hd_lib example_parent 0 =
     Inr \<lparr>PrivateKey = replicate 31 0 @ [153],
          PublicKey = derivePublicKey curve_hd_lib (replicate 31 0 @ [153]),
          ChainCode = replicate 32 0x01, Depth = 1, ChildNum = 0, Fingerprint = 0\<rparr> \<and>
   fst (ScalarBaseMult curve_hd_lib (replicate 31 0 @ [153])) =
     0xE3AE1974566CA06CC516D47E0FB165A674A3DABCFCA15E722F0E3450F45889 \<and>
   length (derivePublicKey curve_hd_lib (replicate 31 0 @ [153])) < 33 \<and>
   \<not> isHardened 1 \<and>
   length (childData
             \<lparr>PrivateKey = replicate 31 0 @ [153],
              PublicKey = derivePublicKey curve_hd_lib (replicate 31 0 @ [153]),
              ChainCode = replicate 32 0x01, Depth = 1, ChildNum = 0, Fingerprint = 0\<rparr> 1) < 37"
proof -
  let ?key = "replicate 31 0 @ [153] :: bytes"
  let ?child = "\<lparr>PrivateKey = ?key, PublicKey = derivePublicKey curve_hd_lib ?key,
                 ChainCode = replicate 32 0x01, Depth = 1, ChildNum = 0, Fingerprint = 0\<rparr>"
  have x: "fst (ScalarBaseMult curve_hd_lib ?key) =
             0xE3AE1974566CA06CC516D47E0FB165A674A3DABCFCA15E722F0E3450F45889"
    by (simp add: curve_hd_lib_def secp256k1_key_153 secp256k1_153G_def)
  have small: "0 \<le> fst (ScalarBaseMult curve_hd_lib (PrivateKey ?child)) \<and>
               fst (ScalarBaseMult curve_hd_lib (PrivateKey ?child)) < 2 ^ 248"
    using secp256k1_key_153_short
    by (simp add: curve_hd_lib_def secp256k1_key_153)
  have nh: "\<not> isHardened 1" by (simp add: isHardened_def word_le_def)
  from C9_public_key_not_padded[where L = curve_hd_lib and k = ?key and p = example_parent
         and c = 0 and child = ?child and c' = 1] curve_child small nh
  have "length (derivePublicKey curve_hd_lib ?key) < 33 \<and> length (childData ?child 1) < 37"
    by (metis HDKey.select_convs(1))
  with curve_child x nh show ?thesis by blast
qed

section \<open>Properties of the vault\<close>

lemma ReadFull_Some:
  "ReadFull n source = Some (b, rest) \<Longrightarrow> length b = n \<and> source = b @ rest"
  by (auto simp: ReadFull_def split: if_splits)

lemma NewVault_Inr:
  assumes "NewVault L source mn pw = (Inr v, rest)"
  shows "\<exists>key block g data.
           length source \<ge> 44 \<and> rest = drop 44 source \<and>
           Salt v = take 32 source \<and> Nonce v = take 12 (drop 32 source) \<and>
           deriveKey L pw (Salt v) = Inr key \<and>
           aes_NewCipher L key = Some block \<and> cipher_NewGCM L block = Some g \<and>
           json_Marshal_VaultData L \<lparr>Mnemonic = mn, Version = 1\<rparr> = Some data \<and>
           Data v = gcm_Seal L g (Nonce v) data \<and> MAC v = None"
  using assms
  by (auto simp: NewVault_def ReadFull_def encrypt_def gcmStandardNonceSize_def
           split: if_splits option.splits sum.splits prod.splits)

lemma Decrypt_ignores_MAC: "Decrypt L (v\<lparr>MAC := x\<rparr>) pw = Decrypt L v pw"
  by (simp add: Decrypt_def decrypt_def split: sum.splits)

text \<open>
  Claim C1, for a mnemonic that \<open>json.Unmarshal\<close> reads back as \<open>json.Marshal\<close> was given
  it. Let the AEAD open what it sealed, under the same key and a 12-byte nonce, and let
  \<open>json.Unmarshal\<close> read back what \<open>json.Marshal\<close> wrote for this mnemonic. Then every
  vault \<open>NewVault\<close> returns for the mnemonic and a password decrypts, under that password, to
  the mnemonic; and \<open>NewVault\<close> does return a vault when the random source delivers the
  salt and the nonce and the key derivation, the cipher and the encoder succeed.
\<close>

theorem C1_vault_round_trip:
  assumes gcm: "\<And>key block g nonce d.
                  aes_NewCipher L key = Some block \<Longrightarrow> cipher_NewGCM L block = Some g \<Longrightarrow>
                  length nonce = 12 \<Longrightarrow> gcm_Open L g nonce (gcm_Seal L g nonce d) = Some d"
    and json: "\<And>b. json_Marshal_VaultData L \<lparr>Mnemonic = M, Version = 1\<rparr> = Some b \<Longrightarrow>
                  json_Unmarshal_VaultData L b = Some \<lparr>Mnemonic = M, Version = 1\<rparr>"
  shows "(NewVault L source M Pw = (Inr v, rest) \<longrightarrow> Decrypt L v Pw = Inr M) \<and>
         (44 \<le> length source \<and>
          scrypt_Key L (bytes_of_string Pw) (take 32 source) ScryptN ScryptR ScryptP KeyLen = Some key \<and>
          aes_NewCipher L key = Some block \<and> cipher_NewGCM L block = Some g \<and>
          json_Marshal_VaultData L \<lparr>Mnemonic = M, Version = 1\<rparr> = Some data \<longrightarrow>
            (\<exists>v'. NewVault L source M Pw = (Inr v', drop 44 source) \<and> Decrypt L v' Pw = Inr M))"
proof -
  have rt: "Decrypt L u Pw = Inr M" if u: "NewVault L source M Pw = (Inr u, r)" for u r
  proof -
    from NewVault_Inr[OF u] obtain key' block' g' data' where
      len: "length source \<ge> 44" and
      n: "Nonce u = take 12 (drop 32 source)" and
      k: "deriveKey L Pw (Salt u) = Inr key'" and
      c: "aes_NewCipher L key' = Some block'" "cipher_NewGCM L block' = Some g'" and
      j: "json_Marshal_VaultData L \<lparr>Mnemonic = M, Version = 1\<rparr> = Some data'" and
      d: "Data u = gcm_Seal L g' (Nonce u) data'"
      by blast
    from len n have l: "length (Nonce u) = 12" by simp
    from gcm[OF c this] d have "gcm_Open L g' (Nonce u) (Data u) = Some data'" by simp
    with k c l json[OF j] show ?thesis
      by (simp add: Decrypt_def decrypt_def gcmStandardNonceSize_def)
  qed
  have one: "NewVault L source M Pw = (Inr v, rest) \<longrightarrow> Decrypt L v Pw = Inr M"
    using rt by blast
  have two: "44 \<le> length source \<and>
          scrypt_Key L (bytes_of_string Pw) (take 32 source) ScryptN ScryptR ScryptP KeyLen = Some key \<and>
          aes_NewCipher L key = Some block \<and> cipher_NewGCM L block = Some g \<and>
          json_Marshal_VaultData L \<lparr>Mnemonic = M, Version = 1\<rparr> = Some data \<longrightarrow>
            (\<exists>v'. NewVault L source M Pw = (Inr v', drop 44 source) \<and> Decrypt L v' Pw = Inr M)"
  proof
    assume h: "44 \<le> length source \<and>
          scrypt_Key L (bytes_of_string Pw) (take 32 source) ScryptN ScryptR ScryptP KeyLen = Some key \<and>
          aes_NewCipher L key = Some block \<and> cipher_NewGCM L block = Some g \<and>
          json_Marshal_VaultData L \<lparr>Mnemonic = M, Version = 1\<rparr> = Some data"
    then have "NewVault L source M Pw =
        (Inr \<lparr>Salt = take 32 source, Nonce = take 12 (drop 32 source),
              Data = gcm_Seal L g (take 12 (drop 32 source)) data, MAC = None\<rparr>, drop 44 source)"
      by (auto simp: NewVault_def ReadFull_def deriveKey_def encrypt_def gcmStandardNonceSize_def)
    with rt show "\<exists>v'. NewVault L source M Pw = (Inr v', drop 44 source) \<and> Decrypt L v' Pw = Inr M"
      by blast
  qed
  from one two show ?thesis by blast
qed

lemma example_crypto_opens:
  "aes_NewCipher example_crypto key = Some block \<Longrightarrow> cipher_NewGCM example_crypto block = Some g \<Longrightarrow>
   length nonce = 12 \<Longrightarrow> gcm_Open example_crypto g nonce (gcm_Seal example_crypto g nonce d) = Some d"
  by (simp add: example_crypto_def)

lemma example_json_crypto_opens:
  "aes_NewCipher example_json_crypto key = Some block \<Longrightarrow>
   cipher_NewGCM example_json_crypto block = Some g \<Longrightarrow> length nonce = 12 \<Longrightarrow>
   gcm_Open example_json_crypto g nonce (gcm_Seal example_json_crypto g nonce d) = Some d"
  by (simp add: example_json_crypto_def example_crypto_def)

lemma byte_of_char_unat: "unat (of_char c :: byte) = of_char c"
proof -
  have "(of_char c :: byte) = of_nat (of_char c)" by (simp add: of_nat_of_char)
  moreover have "(of_char c :: nat) < 256" by simp
  ultimately show ?thesis by (simp add: unat_of_nat del: of_nat_of_char)
qed

lemma example_mnemonic_well_formed:
  "replaceInvalidUTF8 (map of_char ''abandon ability able'') = map of_char ''abandon ability able''"
  by code_simp

lemma example_json_crypto_reads_back:
  "json_Marshal_VaultData example_json_crypto
     \<lparr>Mnemonic = ''abandon ability able'', Version = 1\<rparr> = Some b \<Longrightarrow>
   json_Unmarshal_VaultData example_json_crypto b =
     Some \<lparr>Mnemonic = ''abandon ability able'', Version = 1\<rparr>"
proof -
  have "map (\<lambda>x. char_of (unat x)) (map of_char s :: bytes) = s" for s
    by (simp add: comp_def byte_of_char_unat)
  then show "json_Marshal_VaultData example_json_crypto
     \<lparr>Mnemonic = ''abandon ability able'', Version = 1\<rparr> = Some b \<Longrightarrow>
   json_Unmarshal_VaultData example_json_crypto b =
     Some \<lparr>Mnemonic = ''abandon ability able'', Version = 1\<rparr>"
    unfolding example_json_crypto_def example_crypto_def
    by (auto simp only: example_mnemonic_well_formed crypto_lib.simps VaultData.simps
          if_True option.inject simp_thms)
qed

lemma example_vault:
  "NewVault example_crypto (replicate 44 7) ''abandon ability able'' ''password1'' =
     (Inr \<lparr>Salt = replicate 32 7, Nonce = replicate 12 7,
           Data = map of_char ''abandon ability able'' @ map of_char ''password1'' @ replicate 23 7,
           MAC = None\<rparr>, [])"
  by (simp add: NewVault_def ReadFull_def deriveKey_def encrypt_def example_crypto_def
      bytes_of_string_def KeyLen_def gcmStandardNonceSize_def)

lemma example_json_vault:
  "NewVault example_json_crypto (replicate 44 7) ''abandon ability able'' ''password1'' =
     (Inr \<lparr>Salt = replicate 32 7, Nonce = replicate 12 7,
           Data = map of_char ''abandon ability able'' @ map of_char ''password1'' @ replicate 23 7,
           MAC = None\<rparr>, [])"
  by code_simp

theorem C1_vault_round_trip_witness:
  "Decrypt example_json_crypto
     \<lparr>Salt = replicate 32 7, Nonce = replicate 12 7,
      Data = map of_char ''abandon ability able'' @ map of_char ''password1'' @ replicate 23 7,
      MAC = None\<rparr> ''password1'' = Inr ''abandon ability able''"
proof -
  have a: "\<And>key block g nonce d.
             aes_NewCipher example_json_crypto key = Some block \<Longrightarrow>
             cipher_NewGCM example_json_crypto block = Some g \<Longrightarrow> length nonce = 12 \<Longrightarrow>
             gcm_Open example_json_crypto g nonce (gcm_Seal example_json_crypto g nonce d) = Some d"
    by (rule example_json_crypto_opens)
  have b: "\<And>b. json_Marshal_VaultData example_json_crypto
                   \<lparr>Mnemonic = ''abandon ability able'', Version = 1\<rparr> = Some b \<Longrightarrow>
                 json_Unmarshal_VaultData example_json_crypto b =
                   Some \<lparr>Mnemonic = ''abandon ability able'', Version = 1\<rparr>"
    by (rule example_json_crypto_reads_back)
  let ?v = "\<lparr>Salt = replicate 32 7, Nonce = replicate 12 7,
      Data = map of_char ''abandon ability able'' @ map of_char ''password1'' @ replicate 23 7,
      MAC = None\<rparr>"
  from a b have
    "(NewVault example_json_crypto (replicate 44 7) ''abandon ability able'' ''password1'' = (Inr ?v, []) \<longrightarrow>
        Decrypt example_json_crypto ?v ''password1'' = Inr ''abandon ability able'') \<and>
     (44 \<le> length (replicate 44 (7 :: byte)) \<and>
      scrypt_Key example_json_crypto (bytes_of_string ''password1'') (take 32 (replicate 44 7))
        ScryptN ScryptR ScryptP KeyLen = Some [] \<and>
      aes_NewCipher example_json_crypto [] = Some [] \<and> cipher_NewGCM example_json_crypto [] = Some [] \<and>
      json_Marshal_VaultData example_json_crypto \<lparr>Mnemonic = ''abandon ability able'', Version = 1\<rparr>
        = Some [] \<longrightarrow>
        (\<exists>v'. NewVault example_json_crypto (replicate 44 7) ''abandon ability able'' ''password1''
                = (Inr v', drop 44 (replicate 44 7)) \<and>
              Decrypt example_json_crypto v' ''password1'' = Inr ''abandon ability able''))"
    by (rule C1_vault_round_trip)
  with example_json_vault show ?thesis by blast
qed

text \<open>
  Without the condition on the mnemonic claim C1 fails. The mnemonic of the one byte \<open>FF\<close>
  is no well-formed UTF-8: \<open>NewVault\<close> returns a vault for it, and the vault decrypts, under
  the same password, to the three bytes of \<open>U+FFFD\<close>.
\<close>

theorem C1_counterexample:
  "NewVault example_json_crypto (replicate 44 7) [CHR 0xFF] ''password1'' =
     (Inr \<lparr>Salt = replicate 32 7, Nonce = replicate 12 7,
           Data = [0xEF, 0xBF, 0xBD] @ map of_char ''password1'' @ replicate 23 7,
           MAC = None\<rparr>, []) \<and>
   Decrypt example_json_crypto
     \<lparr>Salt = replicate 32 7, Nonce = replicate 12 7,
      Data = [0xEF, 0xBF, 0xBD] @ map of_char ''password1'' @ replicate 23 7,
      MAC = None\<rparr> ''password1'' = Inr [CHR 0xEF, CHR 0xBF, CHR 0xBD] \<and>
   Decrypt example_json_crypto
     \<lparr>Salt = replicate 32 7, Nonce = replicate 12 7,
      Data = [0xEF, 0xBF, 0xBD] @ map of_char ''password1'' @ replicate 23 7,
      MAC = None\<rparr> ''password1'' \<noteq> Inr [CHR 0xFF]"
  by code_simp

section \<open>Properties of the wallet manager\<close>

lemma createSession_vault_file:
  "createSession K m w = (r, w') \<Longrightarrow> vault_file w' = vault_file w \<and> clock w' = clock w"
  by (auto simp: createSession_def generateSessionToken_def
           split: option.splits prod.splits sum.splits if_splits)

lemma createSession_success:
  "createSession K m w = (None, w') \<Longrightarrow>
     \<exists>token data.
       json_Marshal_Session K
         \<lparr>Token = token, SessionMnemonic = mnemonic m,
          Expiration = clock w + SessionDuration * Minute, Network = network m\<rparr> = Some data \<and>
       session_file w' = Some data"
  by (auto simp: createSession_def generateSessionToken_def
           split: option.splits prod.splits sum.splits if_splits)

lemma saveVault_success:
  "saveVault K v w = (None, w') \<Longrightarrow>
     vault_file w' = json_Marshal_Vault K v \<and> vault_file w' \<noteq> None \<and> clock w' = clock w"
  by (auto simp: saveVault_def split: option.splits if_splits)

lemma storeNewVault_success:
  assumes "storeNewVault K L m w mn pw = (None, m', w')"
  shows "\<exists>v' rest token data.
           NewVault L (random w) mn pw = (Inr v', rest) \<and>
           m' = m\<lparr>vault := Some v', mnemonic := mn, password := pw, unlocked := True\<rparr> \<and>
           vault m' = Some v' \<and> MAC v' = None \<and>
           vault_file w' = json_Marshal_Vault K v' \<and> vault_file w' \<noteq> None \<and>
           json_Marshal_Session K
             \<lparr>Token = token, SessionMnemonic = mn,
              Expiration = clock w + SessionDuration * Minute, Network = network m\<rparr> = Some data \<and>
           session_file w' = Some data"
proof -
  from assms obtain v' rest w1 where
    nv: "NewVault L (random w) mn pw = (Inr v', rest)" and
    sv: "saveVault K v' (w\<lparr>random := rest\<rparr>) = (None, w1)" and
    cs: "createSession K (m\<lparr>vault := Some v', mnemonic := mn, password := pw, unlocked := True\<rparr>) w1
           = (None, w')" and
    m': "m' = m\<lparr>vault := Some v', mnemonic := mn, password := pw, unlocked := True\<rparr>"
    by (auto simp: storeNewVault_def split: prod.splits sum.splits if_splits option.splits)
  from NewVault_Inr[OF nv] have mac: "MAC v' = None" by blast
  from saveVault_success[OF sv] have
    vf: "vault_file w1 = json_Marshal_Vault K v'" "vault_file w1 \<noteq> None"
    by blast+
  from saveVault_success[OF sv] have ck: "clock w1 = clock w"
    by simp
  from createSession_vault_file[OF cs] vf have
    vf': "vault_file w' = json_Marshal_Vault K v'" "vault_file w' \<noteq> None"
    by metis+
  from createSession_success[OF cs] ck obtain token data where
    "json_Marshal_Session K
       \<lparr>Token = token, SessionMnemonic = mn,
        Expiration = clock w + SessionDuration * Minute, Network = network m\<rparr> = Some data"
    "session_file w' = Some data"
    by auto
  with nv m' mac vf' show ?thesis by auto
qed


text \<open>
  Claim C10. \<open>encrypt\<close> returns no MAC, so the vault of \<open>NewVault\<close> has \<open>MAC = nil\<close>; the
  authentication tag is part of \<open>Data\<close>, the output of \<open>Seal\<close>. \<open>decrypt\<close>, \<open>Decrypt\<close> and
  \<open>ValidatePassword\<close> give the same result whatever the MAC is. The vault that \<open>Initialize\<close>
  and \<open>ImportFromMnemonic\<close> write to the vault file is encoded with its MAC field, which is
  \<open>nil\<close>.
\<close>

theorem C10_mac_is_nil_and_unused:
  "(encrypt L key nonce data = Inr (c, mac) \<longrightarrow> mac = None) \<and>
   (NewVault L source mn pw = (Inr v, rest) \<longrightarrow> MAC v = None) \<and>
   decrypt L key nonce data x = decrypt L key nonce data y \<and>
   Decrypt L (u\<lparr>MAC := x\<rparr>) pw = Decrypt L u pw \<and>
   ValidatePassword L (u\<lparr>MAC := x\<rparr>) pw = ValidatePassword L u pw \<and>
   (storeNewVault K L m w mn pw = (None, m', w') \<longrightarrow>
      (\<exists>v'. vault m' = Some v' \<and> MAC v' = None \<and> vault_file w' = json_Marshal_Vault K v' \<and>
            vault_file w' \<noteq> None))"
proof -
  have a: "encrypt L key nonce data = Inr (c, mac) \<longrightarrow> mac = None"
    by (auto simp: encrypt_def split: option.splits)
  have b: "NewVault L source mn pw = (Inr v, rest) \<longrightarrow> MAC v = None"
    using NewVault_Inr[of L source mn pw v rest] by blast
  have c: "decrypt L key nonce data x = decrypt L key nonce data y"
    by (simp add: decrypt_def)
  have d: "Decrypt L (u\<lparr>MAC := x\<rparr>) pw = Decrypt L u pw"
    by (rule Decrypt_ignores_MAC)
  have e: "ValidatePassword L (u\<lparr>MAC := x\<rparr>) pw = ValidatePassword L u pw"
    by (simp add: ValidatePassword_def Decrypt_ignores_MAC)
  have f: "storeNewVault K L m w mn pw = (None, m', w') \<longrightarrow>
      (\<exists>v'. vault m' = Some v' \<and> MAC v' = None \<and> vault_file w' = json_Marshal_Vault K v' \<and>
            vault_file w' \<noteq> None)"
    using storeNewVault_success[of K L m w mn pw m' w'] by blast
  from a b c d e f show ?thesis by blast
qed

lemma loadSession_True:
  "loadSession K m w = (True, m', w') \<Longrightarrow>
     \<exists>data s. session_file w = Some data \<and> json_Unmarshal_Session K data = Some s \<and>
       \<not> clock w > Expiration s \<and> Network s = network m \<and>
       m' = m\<lparr>mnemonic := SessionMnemonic s, unlocked := True\<rparr> \<and> w' = w"
  by (auto simp: loadSession_def split: option.splits if_splits)

lemma loadSession_False:
  "loadSession K m w = (False, m', w') \<Longrightarrow>
     m' = m \<and> vault_file w' = vault_file w \<and> (w' = w \<or> w' = w\<lparr>session_file := None\<rparr>)"
  by (auto simp: loadSession_def split: option.splits if_splits)

text \<open>
  Claim C4, amended. \<open>loadSession\<close> accepts a stored session only if the file decodes, the
  clock is not after the expiration (a session is still accepted at the instant of its
  expiration) and the network of the session is the network of the manager; then it loads
  the mnemonic and leaves the file. A session that fails a check is never loaded. The file
  is removed when it does not decode and when the session has expired; a session that has
  not expired but belongs to the other network is refused and its file is left in place.
\<close>

theorem C4_session_validity:
  "(loadSession K m w = (True, m', w') \<longrightarrow>
      (\<exists>data s. session_file w = Some data \<and> json_Unmarshal_Session K data = Some s \<and>
         \<not> clock w > Expiration s \<and> Network s = network m \<and>
         m' = m\<lparr>mnemonic := SessionMnemonic s, unlocked := True\<rparr> \<and> w' = w)) \<and>
   (loadSession K m w = (False, m', w') \<longrightarrow> m' = m) \<and>
   (session_file w = Some data \<and> json_Unmarshal_Session K data = None \<longrightarrow>
      loadSession K m w = (False, m, w\<lparr>session_file := None\<rparr>)) \<and>
   (session_file w = Some data \<and> json_Unmarshal_Session K data = Some s \<and>
    clock w > Expiration s \<longrightarrow>
      loadSession K m w = (False, m, w\<lparr>session_file := None\<rparr>)) \<and>
   (session_file w = Some data \<and> json_Unmarshal_Session K data = Some s \<and>
    \<not> clock w > Expiration s \<and> Network s \<noteq> network m \<longrightarrow>
      loadSession K m w = (False, m, w))"
proof -
  have a: "loadSession K m w = (True, m', w') \<longrightarrow>
      (\<exists>data s. session_file w = Some data \<and> json_Unmarshal_Session K data = Some s \<and>
         \<not> clock w > Expiration s \<and> Network s = network m \<and>
         m' = m\<lparr>mnemonic := SessionMnemonic s, unlocked := True\<rparr> \<and> w' = w)"
    using loadSession_True[of K m w m' w'] by blast
  have b: "loadSession K m w = (False, m', w') \<longrightarrow> m' = m"
    using loadSession_False[of K m w m' w'] by blast
  have c: "session_file w = Some data \<and> json_Unmarshal_Session K data = None \<longrightarrow>
      loadSession K m w = (False, m, w\<lparr>session_file := None\<rparr>)"
    by (simp add: loadSession_def)
  have d: "session_file w = Some data \<and> json_Unmarshal_Session K data = Some s \<and>
    clock w > Expiration s \<longrightarrow> loadSession K m w = (False, m, w\<lparr>session_file := None\<rparr>)"
    by (simp add: loadSession_def)
  have e: "session_file w = Some data \<and> json_Unmarshal_Session K data = Some s \<and>
    \<not> clock w > Expiration s \<and> Network s \<noteq> network m \<longrightarrow> loadSession K m w = (False, m, w)"
    by (simp add: loadSession_def)
  from a b c d e show ?thesis by blast
qed

lemma example_manager_eq:
  "example_manager =
     \<lparr>vault = None, mnemonic = [], password = [], unlocked = False, network = ''mainnet''\<rparr>"
  by (simp add: example_manager_def NewManager_def example_world_def example_manager_lib_def
      NetworkMainnet_def NetworkTestnet_def)

lemma example_session_file:
  "session_file (example_world v (Some s) t) = Some (Inl s) \<and>
   json_Unmarshal_Session example_manager_lib (Inl s) = Some s \<and>
   clock (example_world v (Some s) t) = t"
  by (simp add: example_world_def example_manager_lib_def)

theorem C4_session_validity_witness:
  "loadSession example_manager_lib example_manager
     (example_world None (Some (example_session 20 ''mainnet'')) 10) =
     (True, example_manager\<lparr>mnemonic := ''abandon ability able'', unlocked := True\<rparr>,
      example_world None (Some (example_session 20 ''mainnet'')) 10) \<and>
   loadSession example_manager_lib example_manager
     (example_world None (Some (example_session 5 ''mainnet'')) 10) =
     (False, example_manager,
      (example_world None (Some (example_session 5 ''mainnet'')) 10)\<lparr>session_file := None\<rparr>) \<and>
   loadSession example_manager_lib example_manager
     (example_world None (Some (example_session 20 ''testnet'')) 10) =
     (False, example_manager, example_world None (Some (example_session 20 ''testnet'')) 10)"
proof -
  let ?K = example_manager_lib and ?m = example_manager
  let ?w1 = "example_world None (Some (example_session 20 ''mainnet'')) 10"
  let ?w2 = "example_world None (Some (example_session 5 ''mainnet'')) 10"
  let ?w3 = "example_world None (Some (example_session 20 ''testnet'')) 10"
  obtain ok m' w' where r: "loadSession ?K ?m ?w1 = (ok, m', w')"
    by (cases "loadSession ?K ?m ?w1") auto
  have ok: "ok"
    using r by (simp add: loadSession_def example_session_file example_session_def example_manager_eq)
  from C4_session_validity[of ?K ?m ?w1 m' w'] r ok example_session_file[of None "example_session 20 ''mainnet''" 10]
  have one: "loadSession ?K ?m ?w1 =
     (True, ?m\<lparr>mnemonic := ''abandon ability able'', unlocked := True\<rparr>, ?w1)"
    by (auto simp: example_session_def)
  have h2: "session_file ?w2 = Some (Inl (example_session 5 ''mainnet'')) \<and>
      json_Unmarshal_Session ?K (Inl (example_session 5 ''mainnet'')) = Some (example_session 5 ''mainnet'') \<and>
      clock ?w2 > Expiration (example_session 5 ''mainnet'')"
    by (simp add: example_session_file) (simp add: example_session_def)
  from C4_session_validity[of ?K ?m ?w2 _ _ "Inl (example_session 5 ''mainnet'')" "example_session 5 ''mainnet''"] h2
  have two: "loadSession ?K ?m ?w2 = (False, ?m, ?w2\<lparr>session_file := None\<rparr>)"
    by blast
  have h3: "session_file ?w3 = Some (Inl (example_session 20 ''testnet'')) \<and>
      json_Unmarshal_Session ?K (Inl (example_session 20 ''testnet'')) = Some (example_session 20 ''testnet'') \<and>
      \<not> clock ?w3 > Expiration (example_session 20 ''testnet'') \<and>
      Network (example_session 20 ''testnet'') \<noteq> network ?m"
    by (simp add: example_session_file) (simp add: example_session_def example_manager_eq)
  from C4_session_validity[of ?K ?m ?w3 _ _ "Inl (example_session 20 ''testnet'')" "example_session 20 ''testnet''"] h3
  have three: "loadSession ?K ?m ?w3 = (False, ?m, ?w3)"
    by blast
  from one two three show ?thesis by blast
qed

text \<open>
  Claim C4 as stated fails twice. A session whose expiration is the present instant is
  accepted, though the present is not before it. A session of the other network that has
  not expired is refused, and its file is still there afterwards.
\<close>

theorem C4_counterexample:
  "fst (loadSession example_manager_lib example_manager
          (example_world None (Some (example_session 10 ''mainnet'')) 10)) \<and>
   \<not> clock (example_world None (Some (example_session 10 ''mainnet'')) 10)
       < Expiration (example_session 10 ''mainnet'') \<and>
   \<not> fst (loadSession example_manager_lib example_manager
            (example_world None (Some (example_session 20 ''testnet'')) 10)) \<and>
   session_file (snd (snd (loadSession example_manager_lib example_manager
            (example_world None (Some (example_session 20 ''testnet'')) 10))))
     = Some (Inl (example_session 20 ''testnet''))"
  by (simp add: loadSession_def example_session_file example_manager_eq)
     (simp add: example_session_def example_world_def)

lemma Decrypt_no_panic:
  "length (Nonce v) = gcmStandardNonceSize \<Longrightarrow> Decrypt L v pw \<noteq> Inl NonceLengthPanic"
  by (auto simp: Decrypt_def decrypt_def deriveKey_def split: sum.splits option.splits if_splits)

lemma unlockWith_InvalidPassword:
  "(fst (unlockWith K L m w v pw) = Some InvalidPassword) =
     (\<exists>e. Decrypt L v pw = Inl e \<and> e \<noteq> NonceLengthPanic)"
  by (cases "Decrypt L v pw")
     (auto simp: unlockWith_def ValidatePassword_def split: prod.splits option.splits)

lemma unlockWith_panic:
  "Decrypt L v pw = Inl NonceLengthPanic \<Longrightarrow>
     unlockWith K L m w v pw = (Some (Panicked NonceLengthPanic), m, w)"
  by (simp add: unlockWith_def ValidatePassword_def)

lemma unlockWith_success:
  "unlockWith K L m w v pw = (None, m', w') \<Longrightarrow>
     \<exists>mn. Decrypt L v pw = Inr mn \<and>
          m' = m\<lparr>mnemonic := mn, password := pw, unlocked := True\<rparr> \<and> session_file w' \<noteq> None"
  by (cases "Decrypt L v pw")
     (auto simp: unlockWith_def ValidatePassword_def split: prod.splits option.splits if_splits
           dest: createSession_success)

text \<open>
  Claim C3, for a vault with a nonce of the 12 bytes the cipher takes. \<open>Unlock\<close> first calls
  \<open>loadSession\<close>. When that loads a valid session, \<open>Unlock\<close> returns without error whatever
  the password is, with the mnemonic of the session and without looking at the vault. When
  it does not, \<open>Unlock\<close> takes the vault the manager holds, or else loads it from the vault
  file: if the file cannot be loaded it fails with the error of the load, and otherwise, the
  nonce of the vault having 12 bytes, it fails with the invalid-password error exactly when
  \<open>Decrypt\<close> fails on the vault under the password.
\<close>

theorem C3_unlock_session_first:
  "(loadSession K m w = (True, m', w') \<longrightarrow> Unlock K L m w pw = (None, m', w')) \<and>
   (loadSession K m w = (False, m', w') \<and>
    (vault m' = Some v \<or> (vault m' = None \<and> loadVault K w' = Inr v)) \<and>
    length (Nonce v) = gcmStandardNonceSize \<longrightarrow>
      (fst (Unlock K L m w pw) = Some InvalidPassword) = (\<exists>e. Decrypt L v pw = Inl e)) \<and>
   (loadSession K m w = (False, m', w') \<and> vault m' = None \<and> loadVault K w' = Inl e \<longrightarrow>
      Unlock K L m w pw = (Some (LoadVaultFailed e), m', w'))"
proof -
  have a: "loadSession K m w = (True, m', w') \<longrightarrow> Unlock K L m w pw = (None, m', w')"
    by (simp add: Unlock_def)
  have b: "loadSession K m w = (False, m', w') \<and>
    (vault m' = Some v \<or> (vault m' = None \<and> loadVault K w' = Inr v)) \<and>
    length (Nonce v) = gcmStandardNonceSize \<longrightarrow>
      (fst (Unlock K L m w pw) = Some InvalidPassword) = (\<exists>e. Decrypt L v pw = Inl e)"
  proof
    assume h: "loadSession K m w = (False, m', w') \<and>
      (vault m' = Some v \<or> (vault m' = None \<and> loadVault K w' = Inr v)) \<and>
      length (Nonce v) = gcmStandardNonceSize"
    then have "Unlock K L m w pw = unlockWith K L m' w' v pw \<or>
               Unlock K L m w pw = unlockWith K L (m'\<lparr>vault := Some v\<rparr>) w' v pw"
      by (auto simp: Unlock_def)
    moreover from h have "Decrypt L v pw \<noteq> Inl NonceLengthPanic"
      by (simp add: Decrypt_no_panic)
    ultimately show "(fst (Unlock K L m w pw) = Some InvalidPassword) = (\<exists>e. Decrypt L v pw = Inl e)"
      using unlockWith_InvalidPassword[of K L m' w' v pw]
            unlockWith_InvalidPassword[of K L "m'\<lparr>vault := Some v\<rparr>" w' v pw]
      by auto
  qed
  have c: "loadSession K m w = (False, m', w') \<and> vault m' = None \<and> loadVault K w' = Inl e \<longrightarrow>
      Unlock K L m w pw = (Some (LoadVaultFailed e), m', w')"
    by (simp add: Unlock_def)
  from a b c show ?thesis by blast
qed

lemma example_old_vault_decrypt:
  "Decrypt example_crypto example_old_vault ''secret99'' = Inr ''old'' \<and>
   Decrypt example_crypto example_old_vault ''wrong'' = Inl (DecryptFailed OpenFailed)"
  by code_simp

lemma example_old_vault_nonce: "length (Nonce example_old_vault) = gcmStandardNonceSize"
  by (simp add: example_old_vault_def gcmStandardNonceSize_def)

theorem C3_unlock_session_first_witness:
  "Unlock example_manager_lib example_crypto example_manager
     (example_world (Some example_old_vault) (Some (example_session 20 ''mainnet'')) 10) ''wrong'' =
     (None, example_manager\<lparr>mnemonic := ''abandon ability able'', unlocked := True\<rparr>,
      example_world (Some example_old_vault) (Some (example_session 20 ''mainnet'')) 10) \<and>
   fst (Unlock example_manager_lib example_crypto example_manager
          (example_world (Some example_old_vault) None 10) ''wrong'') = Some InvalidPassword \<and>
   fst (Unlock example_manager_lib example_crypto example_manager
          (example_world (Some example_old_vault) None 10) ''secret99'') \<noteq> Some InvalidPassword \<and>
   Unlock example_manager_lib example_crypto example_manager
     (example_world None None 10) ''secret99'' =
     (Some (LoadVaultFailed ReadVaultFailed), example_manager, example_world None None 10)"
proof -
  let ?K = example_manager_lib and ?L = example_crypto and ?m = example_manager
  let ?w1 = "example_world (Some example_old_vault) (Some (example_session 20 ''mainnet'')) 10"
  let ?w2 = "example_world (Some example_old_vault) None 10"
  let ?w3 = "example_world None None 10 :: (SessionData + Vault) world"
  have s1: "loadSession ?K ?m ?w1 =
      (True, ?m\<lparr>mnemonic := ''abandon ability able'', unlocked := True\<rparr>, ?w1)"
    by (simp add: loadSession_def example_session_file)
       (simp add: example_session_def example_manager_eq)
  have s2: "loadSession ?K ?m ?w2 = (False, ?m, ?w2)"
    by (simp add: loadSession_def example_world_def)
  have s3: "loadSession ?K ?m ?w3 = (False, ?m, ?w3)"
    by (simp add: loadSession_def example_world_def)
  have v2: "vault ?m = None \<and> loadVault ?K ?w2 = Inr example_old_vault"
    by (simp add: example_manager_eq loadVault_def example_world_def example_manager_lib_def)
  have v3: "vault ?m = None \<and> loadVault ?K ?w3 = Inl ReadVaultFailed"
    by (simp add: example_manager_eq loadVault_def example_world_def)
  from C3_unlock_session_first[where K = ?K and m = ?m and w = ?w1 and L = ?L and pw = "''wrong''"] s1
  have one: "Unlock ?K ?L ?m ?w1 ''wrong'' =
      (None, ?m\<lparr>mnemonic := ''abandon ability able'', unlocked := True\<rparr>, ?w1)"
    by blast
  from C3_unlock_session_first[where K = ?K and m = ?m and w = ?w2 and L = ?L and pw = "''wrong''"
         and m' = ?m and w' = ?w2 and v = example_old_vault] s2 v2
       example_old_vault_decrypt example_old_vault_nonce
  have two: "fst (Unlock ?K ?L ?m ?w2 ''wrong'') = Some InvalidPassword"
    by blast
  from C3_unlock_session_first[where K = ?K and m = ?m and w = ?w2 and L = ?L and pw = "''secret99''"
         and m' = ?m and w' = ?w2 and v = example_old_vault] s2 v2
       example_old_vault_decrypt example_old_vault_nonce
  have three: "fst (Unlock ?K ?L ?m ?w2 ''secret99'') \<noteq> Some InvalidPassword"
    by auto
  from C3_unlock_session_first[where K = ?K and m = ?m and w = ?w3 and L = ?L and pw = "''secret99''"
         and m' = ?m and w' = ?w3 and e = ReadVaultFailed] s3 v3
  have four: "Unlock ?K ?L ?m ?w3 ''secret99'' = (Some (LoadVaultFailed ReadVaultFailed), ?m, ?w3)"
    by blast
  from one two three four show ?thesis by blast
qed

text \<open>
  Without the condition on the nonce the last part of claim C3 fails. A vault file whose
  nonce has 11 bytes is read as it is; no session is stored. Under the password of the vault
  the key is derived and the cipher made, and then \<open>Open\<close> panics on the nonce: the password
  does not decrypt the vault, and \<open>Unlock\<close> does not fail with the invalid-password error,
  nor with any other.
\<close>

lemma example_short_nonce_load:
  "loadSession example_manager_lib example_manager
     (example_world (Some example_short_nonce_vault) None 10) =
     (False, example_manager, example_world (Some example_short_nonce_vault) None 10) \<and>
   vault example_manager = None \<and>
   loadVault example_manager_lib (example_world (Some example_short_nonce_vault) None 10) =
     Inr example_short_nonce_vault"
  by (simp add: loadSession_def example_world_def example_manager_eq loadVault_def
      example_manager_lib_def)

lemma example_short_nonce_decrypt:
  "Decrypt example_crypto example_short_nonce_vault ''secret99'' = Inl NonceLengthPanic"
  by code_simp

theorem C3_counterexample:
  "loadVault example_manager_lib (example_world (Some example_short_nonce_vault) None 10) =
     Inr example_short_nonce_vault \<and>
   Decrypt example_crypto example_short_nonce_vault ''secret99'' = Inl NonceLengthPanic \<and>
   Unlock example_manager_lib example_crypto example_manager
     (example_world (Some example_short_nonce_vault) None 10) ''secret99'' =
     (Some (Panicked NonceLengthPanic),
      example_manager\<lparr>vault := Some example_short_nonce_vault\<rparr>,
      example_world (Some example_short_nonce_vault) None 10) \<and>
   fst (Unlock example_manager_lib example_crypto example_manager
          (example_world (Some example_short_nonce_vault) None 10) ''secret99'')
     \<noteq> Some InvalidPassword"
  using example_short_nonce_load example_short_nonce_decrypt
  by (simp add: Unlock_def unlockWith_panic)

lemma storeNewVault_summary:
  "storeNewVault K L m w mn pw = (None, m', w') \<Longrightarrow>
     unlocked m' \<and> password m' = pw \<and> mnemonic m' = mn \<and> session_file w' \<noteq> None \<and>
     (\<exists>v. vault m' = Some v \<and> vault_file w' = json_Marshal_Vault K v \<and> vault_file w' \<noteq> None)"
  by (drule storeNewVault_success) auto

lemma Initialize_summary:
  "Initialize K L m w pw = (None, m', w') \<Longrightarrow>
     unlocked m' \<and> password m' = pw \<and> session_file w' \<noteq> None \<and>
     (\<exists>v. vault m' = Some v \<and> vault_file w' = json_Marshal_Vault K v \<and> vault_file w' \<noteq> None)"
  by (auto simp: Initialize_def split: option.splits prod.splits dest!: storeNewVault_summary)

lemma ImportFromMnemonic_summary:
  "ImportFromMnemonic K L m w mn pw = (None, m', w') \<Longrightarrow>
     unlocked m' \<and> password m' = pw \<and> session_file w' \<noteq> None \<and>
     (\<exists>v. vault m' = Some v \<and> vault_file w' = json_Marshal_Vault K v \<and> vault_file w' \<noteq> None)"
  by (auto simp: ImportFromMnemonic_def split: if_splits dest!: storeNewVault_summary)

lemma GetMnemonic_Inr:
  "GetMnemonic K m w = (Inr mn, m', w') \<Longrightarrow> w' = w \<and> vault m' = vault m \<and> unlocked m'"
  by (auto simp: GetMnemonic_def split: if_splits prod.splits bool.splits dest!: loadSession_True)

lemma runInit_success:
  assumes "runInit K L w typed confirmed = (None, m', w')"
  shows "vault_file w = None \<and> unlocked m' \<and> session_file w' \<noteq> None \<and>
     (\<exists>v. vault m' = Some v \<and> vault_file w' = json_Marshal_Vault K v \<and> vault_file w' \<noteq> None)"
proof -
  from assms have nv: "vault_file w = None"
    by (auto simp: runInit_def Let_def VaultExists_def split: if_splits)
  from assms obtain pw mi wi mn where
    i: "Initialize K L (NewManager K w) w pw = (None, mi, wi)" and
    g: "GetMnemonic K mi wi = (Inr mn, m', w')"
    by (auto simp: runInit_def Let_def split: if_splits option.splits prod.splits sum.splits)
  from Initialize_summary[OF i] GetMnemonic_Inr[OF g] nv show ?thesis by auto
qed

lemma importRecoveryPhrase_success:
  assumes "importRecoveryPhrase K L w line typed confirmed = (None, m', w')"
  shows "vault_file w = None \<and> unlocked m' \<and> session_file w' \<noteq> None \<and>
     (\<exists>v. vault m' = Some v \<and> vault_file w' = json_Marshal_Vault K v \<and> vault_file w' \<noteq> None)"
proof -
  from assms have nv: "vault_file w = None"
    by (auto simp: importRecoveryPhrase_def Let_def VaultExists_def split: if_splits)
  from assms obtain mn pw where
    "ImportFromMnemonic K L (NewManager K w) w mn pw = (None, m', w')"
    by (auto simp: importRecoveryPhrase_def Let_def split: if_splits option.splits prod.splits)
  from ImportFromMnemonic_summary[OF this] nv show ?thesis by auto
qed

text \<open>
  Claim C7, amended. The check for an existing vault is made by the commands, not by the
  manager. \<open>runInit\<close> and \<open>importRecoveryPhrase\<close> fail with the already-exists error when
  the vault file is present, before anything is read or written, so the vault file and the
  rest of the world are unchanged; when they succeed there was no vault file, and afterwards
  the vault file holds the new vault, the manager is unlocked and a session file exists.
  \<open>Manager.Initialize\<close> and \<open>Manager.ImportFromMnemonic\<close> themselves do not look for a vault
  file: whenever they succeed, the vault file holds the vault they made, the manager is
  unlocked with the password given and a session file exists.
\<close>

theorem C7_existing_vault_guard:
  "(vault_file w \<noteq> None \<longrightarrow>
      runInit K L w typed confirmed = (Some AlreadyExists, NewManager K w, w) \<and>
      importRecoveryPhrase K L w line typed confirmed = (Some AlreadyExists, NewManager K w, w)) \<and>
   (runInit K L w typed confirmed = (None, m', w') \<or>
    importRecoveryPhrase K L w line typed confirmed = (None, m', w') \<longrightarrow>
      vault_file w = None \<and> unlocked m' \<and> session_file w' \<noteq> None \<and>
      (\<exists>v. vault m' = Some v \<and> vault_file w' = json_Marshal_Vault K v \<and> vault_file w' \<noteq> None)) \<and>
   (Initialize K L m w pw = (None, m', w') \<or> ImportFromMnemonic K L m w mn pw = (None, m', w') \<longrightarrow>
      unlocked m' \<and> password m' = pw \<and> session_file w' \<noteq> None \<and>
      (\<exists>v. vault m' = Some v \<and> vault_file w' = json_Marshal_Vault K v \<and> vault_file w' \<noteq> None))"
proof -
  have a: "vault_file w \<noteq> None \<longrightarrow>
      runInit K L w typed confirmed = (Some AlreadyExists, NewManager K w, w) \<and>
      importRecoveryPhrase K L w line typed confirmed = (Some AlreadyExists, NewManager K w, w)"
    by (simp add: runInit_def importRecoveryPhrase_def VaultExists_def Let_def)
  have b: "runInit K L w typed confirmed = (None, m', w') \<or>
    importRecoveryPhrase K L w line typed confirmed = (None, m', w') \<longrightarrow>
      vault_file w = None \<and> unlocked m' \<and> session_file w' \<noteq> None \<and>
      (\<exists>v. vault m' = Some v \<and> vault_file w' = json_Marshal_Vault K v \<and> vault_file w' \<noteq> None)"
    using runInit_success[of K L w typed confirmed m' w']
          importRecoveryPhrase_success[of K L w line typed confirmed m' w']
    by blast
  have c: "Initialize K L m w pw = (None, m', w') \<or> ImportFromMnemonic K L m w mn pw = (None, m', w') \<longrightarrow>
      unlocked m' \<and> password m' = pw \<and> session_file w' \<noteq> None \<and>
      (\<exists>v. vault m' = Some v \<and> vault_file w' = json_Marshal_Vault K v \<and> vault_file w' \<noteq> None)"
    using Initialize_summary[of K L m w pw m' w'] ImportFromMnemonic_summary[of K L m w mn pw m' w']
    by blast
  from a b c show ?thesis by blast
qed

lemma example_Initialize_overwrites:
  "fst (Initialize example_manager_lib example_crypto example_manager
          (example_world (Some example_old_vault) None 5) ''password1'') = None \<and>
   vault_file (snd (snd (Initialize example_manager_lib example_crypto example_manager
          (example_world (Some example_old_vault) None 5) ''password1'')))
     \<noteq> Some (Inr example_old_vault)"
  by code_simp

lemma example_runInit_fresh:
  "fst (runInit example_manager_lib example_crypto (example_world None None 5)
          (Some ''password1'') (Some ''password1'')) = None"
  by code_simp

theorem C7_existing_vault_guard_witness:
  "runInit example_manager_lib example_crypto (example_world (Some example_old_vault) None 5)
     (Some ''password1'') (Some ''password1'') =
     (Some AlreadyExists, NewManager example_manager_lib (example_world (Some example_old_vault) None 5),
      example_world (Some example_old_vault) None 5) \<and>
   unlocked (fst (snd (runInit example_manager_lib example_crypto (example_world None None 5)
     (Some ''password1'') (Some ''password1'')))) \<and>
   vault_file (snd (snd (runInit example_manager_lib example_crypto (example_world None None 5)
     (Some ''password1'') (Some ''password1'')))) \<noteq> None \<and>
   unlocked (fst (snd (Initialize example_manager_lib example_crypto example_manager
          (example_world (Some example_old_vault) None 5) ''password1''))) \<and>
   session_file (snd (snd (Initialize example_manager_lib example_crypto example_manager
          (example_world (Some example_old_vault) None 5) ''password1''))) \<noteq> None"
proof -
  let ?K = example_manager_lib and ?L = example_crypto
  let ?wo = "example_world (Some example_old_vault) None 5"
  let ?wn = "example_world None None 5 :: (SessionData + Vault) world"
  have h1: "vault_file ?wo \<noteq> None" by (simp add: example_world_def)
  obtain m2 w2 where r2: "runInit ?K ?L ?wn (Some ''password1'') (Some ''password1'') = (None, m2, w2)"
    using example_runInit_fresh
    by (cases "runInit ?K ?L ?wn (Some ''password1'') (Some ''password1'')") auto
  obtain m3 w3 where r3: "Initialize ?K ?L example_manager ?wo ''password1'' = (None, m3, w3)"
    using example_Initialize_overwrites
    by (cases "Initialize ?K ?L example_manager ?wo ''password1''") auto
  from C7_existing_vault_guard[where K = ?K and L = ?L and w = ?wo
         and typed = "Some ''password1''" and confirmed = "Some ''password1''"] h1
  have one: "runInit ?K ?L ?wo (Some ''password1'') (Some ''password1'') =
               (Some AlreadyExists, NewManager ?K ?wo, ?wo)"
    by blast
  from C7_existing_vault_guard[where K = ?K and L = ?L and w = ?wn
         and typed = "Some ''password1''" and confirmed = "Some ''password1''"
         and m' = m2 and w' = w2] r2
  have two: "unlocked m2 \<and> vault_file w2 \<noteq> None"
    by blast
  from C7_existing_vault_guard[where K = ?K and L = ?L and w = ?wo and m = example_manager
         and pw = "''password1''" and m' = m3 and w' = w3] r3
  have three: "unlocked m3 \<and> session_file w3 \<noteq> None"
    by blast
  from one two three r2 r3 show ?thesis by simp
qed

text \<open>
  Claim C7 as stated fails for the two functions of the manager: with a vault file present,
  \<open>Initialize\<close> succeeds, and the vault file no longer holds the vault it held.
\<close>

theorem C7_counterexample:
  "vault_file (example_world (Some example_old_vault) None 5) = Some (Inr example_old_vault) \<and>
   fst (Initialize example_manager_lib example_crypto example_manager
          (example_world (Some example_old_vault) None 5) ''password1'') = None \<and>
   vault_file (snd (snd (Initialize example_manager_lib example_crypto example_manager
          (example_world (Some example_old_vault) None 5) ''password1'')))
     \<noteq> Some (Inr example_old_vault)"
  using example_Initialize_overwrites by (simp add: example_world_def)

lemma example_store:
  "fst (storeNewVault example_manager_lib example_crypto example_manager
          (example_world None None 5) ''abandon ability able'' ''password1'') = None"
  by code_simp

theorem C10_mac_is_nil_and_unused_witness:
  "MAC \<lparr>Salt = replicate 32 7, Nonce = replicate 12 7,
        Data = map of_char ''abandon ability able'' @ map of_char ''password1'' @ replicate 23 7,
        MAC = None\<rparr> = None \<and>
   Decrypt example_crypto (example_old_vault\<lparr>MAC := Some [1, 2, 3]\<rparr>) ''secret99'' = Inr ''old'' \<and>
   (\<exists>v'. vault (fst (snd (storeNewVault example_manager_lib example_crypto example_manager
                   (example_world None None 5) ''abandon ability able'' ''password1''))) = Some v' \<and>
         MAC v' = None \<and>
         vault_file (snd (snd (storeNewVault example_manager_lib example_crypto example_manager
                   (example_world None None 5) ''abandon ability able'' ''password1'')))
           = json_Marshal_Vault example_manager_lib v')"
proof -
  let ?K = example_manager_lib and ?L = example_crypto
  let ?w = "example_world None None 5 :: (SessionData + Vault) world"
  obtain m' w' where st: "storeNewVault ?K ?L example_manager ?w ''abandon ability able'' ''password1''
                            = (None, m', w')"
    using example_store
    by (cases "storeNewVault ?K ?L example_manager ?w ''abandon ability able'' ''password1''") auto
  note t = C10_mac_is_nil_and_unused[where L = ?L and source = "replicate 44 7"
         and mn = "''abandon ability able''" and pw = "''password1''" and rest = "[]"
         and v = "\<lparr>Salt = replicate 32 7, Nonce = replicate 12 7,
               Data = map of_char ''abandon ability able'' @ map of_char ''password1'' @ replicate 23 7,
               MAC = None\<rparr>"
         and K = ?K and m = example_manager and w = ?w and m' = m' and w' = w'
         and u = example_old_vault and x = "Some [1, 2, 3]" and y = None
         and key = "[]" and nonce = "[]" and data = "[]" and c = "[]" and mac = None]
  from t example_vault have one: "MAC \<lparr>Salt = replicate 32 7, Nonce = replicate 12 7,
        Data = map of_char ''abandon ability able'' @ map of_char ''password1'' @ replicate 23 7,
        MAC = None\<rparr> = None"
    by blast
  have "Decrypt ?L (example_old_vault\<lparr>MAC := Some [1, 2, 3]\<rparr>) ''secret99'' =
        Decrypt ?L example_old_vault ''secret99''"
    by (rule Decrypt_ignores_MAC)
  with example_old_vault_decrypt
  have two: "Decrypt ?L (example_old_vault\<lparr>MAC := Some [1, 2, 3]\<rparr>) ''secret99'' = Inr ''old''"
    by simp
  from t st have three: "\<exists>v'. vault m' = Some v' \<and> MAC v' = None \<and>
         vault_file w' = json_Marshal_Vault ?K v'"
    by blast
  from one two three st show ?thesis by simp
qed

end
